theory Spec2Isabelle
  imports Complex_Main
begin

section \<open>JSON values\<close>

text \<open>
  Tool arguments, provider replies and tool schemas are JSON data. A JavaScript number that
  arrives in JSON is a finite decimal; it is kept as an exact rational (double rounding is
  not part of the model). An object is the list of its members in insertion order; its keys
  are taken to be distinct and not to be array indices, which JavaScript enumerates first. JavaScript's \<open>undefined\<close> is \<open>None\<close> of \<open>json option\<close>.
  A JavaScript string is the list of its code units.
\<close>

datatype json =
    JNull
  | JBool bool
  | JNum rat
  | JStr string
  | JArr "json list"
  | JObj "(string \<times> json) list"

text \<open>
  What the JavaScript platform and the protocol SDK compute, and this repository does not
  define: the text of a number (\<open>Number::toString\<close>), the number a string converts to,
  the message the SDK's \<open>McpError\<close> constructor builds from its code and message, and the
  message of a \<open>TypeError\<close> the engine throws when a property is read from \<open>null\<close> or
  \<open>undefined\<close>, or when a property that is called is not a function (by the property's
  name). They are parameters of the model.
\<close>

datatype jsnumber = Finite rat | NaN | PosInfinity | NegInfinity

datatype type_error = ReadOfNullish string | NotAFunction string

datatype ErrorCode = MethodNotFound | InvalidParams

record platform =
  number_to_string :: "rat \<Rightarrow> string"
  string_to_number :: "string \<Rightarrow> jsnumber"
  mcp_error_message :: "ErrorCode \<Rightarrow> string \<Rightarrow> string"
  type_error_message :: "type_error \<Rightarrow> string"

subsection \<open>Strings\<close>

definition nl :: string where
  "nl = [CHR 0x0A]"

definition dquote :: string where
  "dquote = [CHR 0x22]"

text \<open>\<open>Array.prototype.join\<close> on strings.\<close>

fun join :: "string \<Rightarrow> string list \<Rightarrow> string" where
  "join sep [] = []"
| "join sep [x] = x"
| "join sep (x # y # ys) = x @ sep @ join sep (y # ys)"

text \<open>The decimal text of an array index or a count.\<close>

fun string_of_nat :: "nat \<Rightarrow> string" where
  "string_of_nat n =
     (if n < 10 then [''0123456789'' ! n]
      else string_of_nat (n div 10) @ [''0123456789'' ! (n mod 10)])"

declare string_of_nat.simps [simp del]

subsection \<open>Truthiness, property reads, conversion to string and number\<close>

text \<open>The test \<open>if (v)\<close> and the left operand of \<open>||\<close>.\<close>

fun truthy :: "json option \<Rightarrow> bool" where
  "truthy None = False"
| "truthy (Some JNull) = False"
| "truthy (Some (JBool b)) = b"
| "truthy (Some (JNum r)) = (r \<noteq> 0)"
| "truthy (Some (JStr s)) = (s \<noteq> [])"
| "truthy (Some (JArr xs)) = True"
| "truthy (Some (JObj kvs)) = True"

text \<open>
  \<open>v.k\<close> for a property name \<open>k\<close> that no prototype defines (\<open>results\<close>, \<open>content\<close>,
  \<open>answer\<close>): the member of an object, \<open>undefined\<close> on any other value, and a
  \<open>TypeError\<close> on \<open>null\<close> and \<open>undefined\<close>.
\<close>

fun get_prop :: "json option \<Rightarrow> string \<Rightarrow> type_error + json option" where
  "get_prop None k = Inl (ReadOfNullish k)"
| "get_prop (Some JNull) k = Inl (ReadOfNullish k)"
| "get_prop (Some (JObj kvs)) k = Inr (map_of kvs k)"
| "get_prop (Some v) k = Inr None"

text \<open>\<open>String(v)\<close>; an array is its elements joined by commas, \<open>null\<close> elements empty.\<close>

fun to_string :: "platform \<Rightarrow> json \<Rightarrow> string" where
  "to_string P JNull = ''null''"
| "to_string P (JBool b) = (if b then ''true'' else ''false'')"
| "to_string P (JNum r) = number_to_string P r"
| "to_string P (JStr s) = s"
| "to_string P (JArr xs) =
     join '','' (map (\<lambda>x. if x = JNull then [] else to_string P x) xs)"
| "to_string P (JObj kvs) = ''[object Object]''"

text \<open>\<open>Number(v)\<close>.\<close>

fun to_number :: "platform \<Rightarrow> json \<Rightarrow> jsnumber" where
  "to_number P JNull = Finite 0"
| "to_number P (JBool b) = Finite (if b then 1 else 0)"
| "to_number P (JNum r) = Finite r"
| "to_number P (JStr s) = string_to_number P s"
| "to_number P v = string_to_number P (to_string P v)"

text \<open>
  \<open>s.slice(0, e)\<close>: \<open>e\<close> is truncated towards zero, a negative \<open>e\<close> counts from the end
  of the string, and the result is the prefix of \<open>s\<close> up to that position.
\<close>

definition slice_end :: "int \<Rightarrow> jsnumber \<Rightarrow> int" where
  "slice_end len e =
     (case e of
        NaN \<Rightarrow> 0
      | PosInfinity \<Rightarrow> len
      | NegInfinity \<Rightarrow> 0
      | Finite r \<Rightarrow>
          (let i = (if r < 0 then \<lceil>r\<rceil> else \<lfloor>r\<rfloor>)
           in if i < 0 then max (len + i) 0 else min i len))"

definition slice0 :: "string \<Rightarrow> jsnumber \<Rightarrow> string" where
  "slice0 s e = take (nat (slice_end (int (length s)) e)) s"

subsection \<open>JSON.stringify\<close>

definition hex_digit :: "nat \<Rightarrow> char" where
  "hex_digit n = ''0123456789abcdef'' ! n"

text \<open>The escape of one code unit inside a JSON string literal.\<close>

definition quote_char :: "char \<Rightarrow> string" where
  "quote_char c =
     (if c = CHR 0x08 then [CHR 0x5C, CHR ''b'']
      else if c = CHR 0x09 then [CHR 0x5C, CHR ''t'']
      else if c = CHR 0x0A then [CHR 0x5C, CHR ''n'']
      else if c = CHR 0x0C then [CHR 0x5C, CHR ''f'']
      else if c = CHR 0x0D then [CHR 0x5C, CHR ''r'']
      else if c = CHR 0x22 then [CHR 0x5C, CHR 0x22]
      else if c = CHR 0x5C then [CHR 0x5C, CHR 0x5C]
      else if (of_char c :: nat) < 32
        then [CHR 0x5C, CHR ''u'', CHR ''0'', CHR ''0'',
              hex_digit (of_char c div 16), hex_digit (of_char c mod 16)]
      else [c])"

definition quote :: "string \<Rightarrow> string" where
  "quote s = dquote @ concat (map quote_char s) @ dquote"

text \<open>
  \<open>JSON.stringify(v, null, gap)\<close> at the indentation \<open>ind\<close>: \<open>gap\<close> is empty for
  \<open>JSON.stringify(v)\<close> and two spaces for \<open>JSON.stringify(v, null, 2)\<close>.
\<close>

fun serialize :: "platform \<Rightarrow> string \<Rightarrow> string \<Rightarrow> json \<Rightarrow> string" where
  "serialize P gap ind JNull = ''null''"
| "serialize P gap ind (JBool b) = (if b then ''true'' else ''false'')"
| "serialize P gap ind (JNum r) = number_to_string P r"
| "serialize P gap ind (JStr s) = quote s"
| "serialize P gap ind (JArr xs) =
     (if xs = [] then ''[]''
      else if gap = [] then ''['' @ join '','' (map (serialize P gap (ind @ gap)) xs) @ '']''
      else ''['' @ nl @ (ind @ gap)
           @ join ('','' @ nl @ (ind @ gap)) (map (serialize P gap (ind @ gap)) xs)
           @ nl @ ind @ '']'')"
| "serialize P gap ind (JObj kvs) =
     (if kvs = [] then ''{}''
      else if gap = []
        then ''{'' @ join '','' (map (\<lambda>(k, v). quote k @ '':'' @ serialize P gap (ind @ gap) v) kvs)
             @ ''}''
      else ''{'' @ nl @ (ind @ gap)
           @ join ('','' @ nl @ (ind @ gap))
               (map (\<lambda>(k, v). quote k @ '': '' @ serialize P gap (ind @ gap) v) kvs)
           @ nl @ ind @ ''}'')"

definition JSON_stringify :: "platform \<Rightarrow> json \<Rightarrow> string" where
  "JSON_stringify P v = serialize P [] [] v"

definition JSON_stringify2 :: "platform \<Rightarrow> json \<Rightarrow> string" where
  "JSON_stringify2 P v = serialize P ''  '' [] v"

text \<open>
  The members of \<open>{...v}\<close>: those of an object, the indexed elements of an array, the
  indexed code units of a string, none for any other value.
\<close>

fun spread :: "json \<Rightarrow> (string \<times> json) list" where
  "spread (JObj kvs) = kvs"
| "spread (JArr xs) = zip (map string_of_nat [0..<length xs]) xs"
| "spread (JStr s) = zip (map string_of_nat [0..<length s]) (map (\<lambda>c. JStr [c]) s)"
| "spread v = []"

text \<open>
  Writing member \<open>k\<close> of an object under construction: an existing member keeps its place
  and takes the new value, a new member goes to the end.
\<close>

fun obj_set :: "(string \<times> json) list \<Rightarrow> string \<Rightarrow> json \<Rightarrow> (string \<times> json) list" where
  "obj_set [] k v = [(k, v)]"
| "obj_set ((k', v') # kvs) k v =
     (if k' = k then (k, v) # kvs else (k', v') # obj_set kvs k v)"

section \<open>The result cache (class TavilyCache)\<close>

record 'a CacheEntry =
  data :: 'a
  timestamp :: int
  ttl :: rat

type_synonym 'a cache_map = "string \<rightharpoonup> 'a CacheEntry"

text \<open>
  \<open>set(key, data, ttl)\<close> and \<open>get(key)\<close>. The first argument is the value that
  \<open>Date.now()\<close> returns during the call, in milliseconds. \<open>get\<close> returns the data
  (\<open>None\<close> for JavaScript's \<open>null\<close>) together with the map it leaves behind.
\<close>

definition TavilyCache_set :: "int \<Rightarrow> string \<Rightarrow> 'a \<Rightarrow> rat \<Rightarrow> 'a cache_map \<Rightarrow> 'a cache_map" where
  "TavilyCache_set date_now key d t c =
     c(key \<mapsto> \<lparr>data = d, timestamp = date_now, ttl = t\<rparr>)"

definition TavilyCache_get :: "int \<Rightarrow> string \<Rightarrow> 'a cache_map \<Rightarrow> 'a option \<times> 'a cache_map" where
  "TavilyCache_get date_now key c =
     (case c key of
        None \<Rightarrow> (None, c)
      | Some entry \<Rightarrow>
          if of_int (date_now - timestamp entry) > ttl entry * 1000
          then (None, c(key := None))
          else (Some (data entry), c))"

section \<open>The text formatter (response_formatters.text)\<close>

text \<open>The interface \<open>TavilySearchResponse\<close> of types.ts, the formatter's argument type.\<close>

datatype image = ImageUrl string | ImageDescribed string string

record SearchResultItem =
  title :: string
  url :: string
  content :: string
  raw_content :: "string option"
  score :: rat
  published_date :: "string option"

record TavilySearchResponse =
  query :: string
  answer :: "string option"
  response_time :: rat
  images :: "image list option"
  results :: "SearchResultItem list"

text \<open>An optional string passes \<open>if (s)\<close> when it is present and not empty.\<close>

fun present :: "string option \<Rightarrow> bool" where
  "present None = False"
| "present (Some s) = (s \<noteq> [])"

fun text_of :: "string option \<Rightarrow> string" where
  "text_of None = []"
| "text_of (Some s) = s"

definition text_source :: "SearchResultItem \<Rightarrow> nat \<Rightarrow> string" where
  "text_source result i =
     string_of_nat (i + 1) @ ''. '' @ title result @ nl
     @ ''   URL: '' @ url result @ nl
     @ (if present (published_date result)
        then ''   Published: '' @ text_of (published_date result) @ nl else [])
     @ ''   Content: '' @ content result @ nl"

definition response_formatters_text :: "TavilySearchResponse \<Rightarrow> string" where
  "response_formatters_text d =
     ''Search Results for '' @ dquote @ query d @ dquote @ '':'' @ nl @ nl
     @ (if present (answer d)
        then ''Summary: '' @ text_of (answer d) @ nl @ nl @ ''Detailed Sources:'' @ nl else [])
     @ join nl (map (\<lambda>(result, i). text_source result i)
                  (zip (results d) [0..<length (results d)]))"

section \<open>Errors (TavilyError, McpError, error_handler.format_error)\<close>

text \<open>
  What a handler can throw: the SDK's \<open>McpError(code, message)\<close>, this repository's
  \<open>TavilyError(message, code, details)\<close>, and any other \<open>Error\<close> with its message.
\<close>

datatype thrown =
    McpError ErrorCode string
  | TavilyError string string json
  | OtherError string

definition format_error :: "platform \<Rightarrow> thrown \<Rightarrow> string" where
  "format_error P e =
     (case e of
        TavilyError message code details \<Rightarrow>
          ''Tavily API Error ('' @ code @ ''): '' @ message
      | McpError code message \<Rightarrow> ''Error: '' @ mcp_error_message P code message
      | OtherError message \<Rightarrow> ''Error: '' @ message)"

section \<open>The tool registry (TAVILY_TOOLS)\<close>

record TavilyToolConfig =
  name :: string
  description :: string
  inputSchema :: json

definition TAVILY_TOOLS :: "TavilyToolConfig list" where
  "TAVILY_TOOLS =
   [\<lparr>name = ''tavily_search'',
     description =
       ''Search the web using Tavily Search API, optimized for high-quality, factual results'',
     inputSchema = JObj
      [(''type'', JStr ''object''),
       (''properties'', JObj
         [(''query'', JObj
            [(''type'', JStr ''string''), (''description'', JStr ''Search query'')]),
          (''search_depth'', JObj
            [(''type'', JStr ''string''),
             (''description'', JStr (''The depth of the search ('' @ dquote @ ''basic'' @ dquote
                @ '' for faster results, '' @ dquote @ ''advanced'' @ dquote
                @ '' for more thorough search)'')),
             (''enum'', JArr [JStr ''basic'', JStr ''advanced'']),
             (''default'', JStr ''basic'')]),
          (''include_answer'', JObj
            [(''type'', JStr ''boolean''),
             (''description'', JStr ''Include an AI-generated answer based on search results''),
             (''default'', JBool True)]),
          (''include_domains'', JObj
            [(''type'', JStr ''array''),
             (''items'', JObj [(''type'', JStr ''string'')]),
             (''description'', JStr ''List of trusted domains to include in search''),
             (''default'', JArr [])]),
          (''exclude_domains'', JObj
            [(''type'', JStr ''array''),
             (''items'', JObj [(''type'', JStr ''string'')]),
             (''description'', JStr ''List of domains to exclude from search''),
             (''default'', JArr [])]),
          (''response_format'', JObj
            [(''type'', JStr ''string''),
             (''enum'', JArr [JStr ''text'', JStr ''json'', JStr ''markdown'']),
             (''description'', JStr ''Format of the search results''),
             (''default'', JStr ''text'')]),
          (''max_results'', JObj
            [(''type'', JStr ''number''),
             (''description'', JStr ''Maximum number of results to return''),
             (''default'', JNum 10)]),
          (''min_score'', JObj
            [(''type'', JStr ''number''),
             (''description'', JStr ''Minimum relevancy score for results (0-1)''),
             (''default'', JNum 0)]),
          (''cache_ttl'', JObj
            [(''type'', JStr ''number''),
             (''description'', JStr ''Cache time-to-live in seconds''),
             (''default'', JNum 3600)]),
          (''force_refresh'', JObj
            [(''type'', JStr ''boolean''),
             (''description'', JStr ''Force fresh results ignoring cache''),
             (''default'', JBool False)])]),
       (''required'', JArr [JStr ''query''])]\<rparr>,
    \<lparr>name = ''tavily_get_search_context'',
     description = ''Generate context for RAG applications using Tavily search'',
     inputSchema = JObj
      [(''type'', JStr ''object''),
       (''properties'', JObj
         [(''query'', JObj
            [(''type'', JStr ''string''),
             (''description'', JStr ''Search query for context generation'')]),
          (''max_tokens'', JObj
            [(''type'', JStr ''number''),
             (''description'', JStr ''Maximum length of generated context''),
             (''default'', JNum 2000)]),
          (''response_format'', JObj
            [(''type'', JStr ''string''),
             (''enum'', JArr [JStr ''text'', JStr ''json'']),
             (''description'', JStr ''Format of the context response''),
             (''default'', JStr ''text'')])]),
       (''required'', JArr [JStr ''query''])]\<rparr>,
    \<lparr>name = ''tavily_qna_search'',
     description = ''Get direct answers to questions using Tavily search'',
     inputSchema = JObj
      [(''type'', JStr ''object''),
       (''properties'', JObj
         [(''query'', JObj
            [(''type'', JStr ''string''), (''description'', JStr ''Question to be answered'')]),
          (''include_sources'', JObj
            [(''type'', JStr ''boolean''),
             (''description'', JStr ''Include source citations in the answer''),
             (''default'', JBool True)]),
          (''response_format'', JObj
            [(''type'', JStr ''string''),
             (''enum'', JArr [JStr ''text'', JStr ''json'']),
             (''description'', JStr ''Format of the answer response''),
             (''default'', JStr ''text'')])]),
       (''required'', JArr [JStr ''query''])]\<rparr>]"

text \<open>
  Reading a schema: the member of an object, the declared parameter names of a tool in
  their order, and the default a tool's schema declares for a parameter.
\<close>

fun member :: "json \<Rightarrow> string \<Rightarrow> json option" where
  "member (JObj kvs) k = map_of kvs k"
| "member v k = None"

fun keys :: "json option \<Rightarrow> string list" where
  "keys (Some (JObj kvs)) = map fst kvs"
| "keys v = []"

definition schema_fields :: "TavilyToolConfig \<Rightarrow> string list" where
  "schema_fields t = keys (member (inputSchema t) ''properties'')"

definition schema_default :: "TavilyToolConfig \<Rightarrow> string \<Rightarrow> json option" where
  "schema_default t f =
     (case member (inputSchema t) ''properties'' of
        None \<Rightarrow> None
      | Some props \<Rightarrow>
          (case member props f of None \<Rightarrow> None | Some d \<Rightarrow> member d ''default''))"

text \<open>The answer to a tool-listing request.\<close>

definition list_tools :: "TavilyToolConfig list" where
  "list_tools = TAVILY_TOOLS"

section \<open>Tool parameters (types.ts) and the request bodies\<close>

text \<open>
  The three parameter interfaces. Every optional field holds what the raw argument bag held
  under that name, \<open>None\<close> when the bag had no such member: the casts of the dispatcher
  check nothing. \<open>TavilyContextParams\<close> and \<open>TavilySearchParams\<close> have the fields of
  \<open>TavilyQnAParams\<close> and their own.
\<close>

record TavilyQnAParams =
  query :: string
  search_depth :: "json option"
  topic :: "json option"
  days :: "json option"
  time_range :: "json option"
  max_results :: "json option"
  include_domains :: "json option"
  exclude_domains :: "json option"

record TavilyContextParams = TavilyQnAParams +
  max_tokens :: "json option"

record TavilySearchParams = TavilyQnAParams +
  include_images :: "json option"
  include_image_descriptions :: "json option"
  include_answer :: "json option"
  include_raw_content :: "json option"

text \<open>A destructuring default \<open>{f = d} = args\<close>: \<open>d\<close> when \<open>args.f\<close> is \<open>undefined\<close>.\<close>

fun dflt :: "json \<Rightarrow> json option \<Rightarrow> json" where
  "dflt d None = d"
| "dflt d (Some v) = v"

text \<open>A member of an object literal that \<open>JSON.stringify\<close> drops when it is \<open>undefined\<close>.\<close>

fun opt_member :: "string \<Rightarrow> json option \<Rightarrow> (string \<times> json) list" where
  "opt_member k None = []"
| "opt_member k (Some v) = [(k, v)]"

definition default_include_domains :: json where
  "default_include_domains = JArr []"

definition default_exclude_domains :: json where
  "default_exclude_domains = JArr []"

text \<open>The object \<open>handle_search\<close> serialises into the cache key.\<close>

definition search_cache_key_object :: "TavilySearchParams \<Rightarrow> json" where
  "search_cache_key_object args = JObj
     [(''query'', JStr (query args)),
      (''search_depth'', dflt (JStr ''basic'') (search_depth args)),
      (''topic'', dflt (JStr ''general'') (topic args)),
      (''include_answer'', dflt (JBool False) (include_answer args)),
      (''include_images'', dflt (JBool False) (include_images args)),
      (''include_raw_content'', dflt (JBool False) (include_raw_content args))]"

definition cache_key :: "platform \<Rightarrow> TavilySearchParams \<Rightarrow> string" where
  "cache_key P args = JSON_stringify P (search_cache_key_object args)"

text \<open>The objects the three handlers serialise into the body of the provider request.\<close>

definition search_request_body :: "TavilySearchParams \<Rightarrow> json" where
  "search_request_body args = JObj
     ([(''query'', JStr (query args)),
       (''search_depth'', dflt (JStr ''basic'') (search_depth args)),
       (''topic'', dflt (JStr ''general'') (topic args))]
      @ opt_member ''days'' (days args)
      @ opt_member ''time_range'' (time_range args)
      @ [(''max_results'', dflt (JNum 5) (max_results args)),
         (''include_images'', dflt (JBool False) (include_images args)),
         (''include_image_descriptions'', dflt (JBool False) (include_image_descriptions args)),
         (''include_answer'', dflt (JBool False) (include_answer args)),
         (''include_raw_content'', dflt (JBool False) (include_raw_content args)),
         (''include_domains'', dflt default_include_domains (include_domains args)),
         (''exclude_domains'', dflt default_exclude_domains (exclude_domains args))])"

definition context_request_body :: "TavilyContextParams \<Rightarrow> json" where
  "context_request_body args = JObj
     ([(''query'', JStr (query args)),
       (''search_depth'', dflt (JStr ''advanced'') (search_depth args)),
       (''topic'', dflt (JStr ''general'') (topic args))]
      @ opt_member ''days'' (days args)
      @ opt_member ''time_range'' (time_range args)
      @ [(''max_results'', dflt (JNum 5) (max_results args)),
         (''include_domains'', dflt default_include_domains (include_domains args)),
         (''exclude_domains'', dflt default_exclude_domains (exclude_domains args)),
         (''max_tokens'', dflt (JNum 2000) (max_tokens args)),
         (''include_answer'', JBool False)])"

definition qna_request_body :: "TavilyQnAParams \<Rightarrow> json" where
  "qna_request_body args = JObj
     ([(''query'', JStr (query args)),
       (''search_depth'', dflt (JStr ''advanced'') (search_depth args)),
       (''topic'', dflt (JStr ''general'') (topic args))]
      @ opt_member ''days'' (days args)
      @ opt_member ''time_range'' (time_range args)
      @ [(''max_results'', dflt (JNum 5) (max_results args)),
         (''include_domains'', dflt default_include_domains (include_domains args)),
         (''exclude_domains'', dflt default_exclude_domains (exclude_domains args)),
         (''include_answer'', JBool True)])"

section \<open>The provider and the server state\<close>

text \<open>
  One \<open>fetch\<close> of the provider's search endpoint: it rejects with an error message, or
  resolves to a response whose \<open>json()\<close> yields the parsed body or rejects with a message.
  The provider is a function of the request body; with the outcome it gives the
  milliseconds by which \<open>Date.now()\<close> has moved when the handler resumes. No time passes
  while a handler runs without waiting.
\<close>

record http_response =
  ok :: bool
  status :: int
  statusText :: string
  json_body :: "string + json"

datatype fetch_outcome = Rejected string | Resolved http_response

type_synonym provider = "string \<Rightarrow> fetch_outcome \<times> int"

text \<open>
  The state a call reads and writes: the cache of the server, the clock, and the bodies of
  the provider requests sent so far, oldest first.
\<close>

record world =
  cache :: "json cache_map"
  date_now :: int
  requests :: "string list"

definition do_fetch :: "provider \<Rightarrow> string \<Rightarrow> world \<Rightarrow> fetch_outcome \<times> world" where
  "do_fetch fetch body w =
     (case fetch body of
        (out, elapsed) \<Rightarrow>
          (out, w\<lparr>date_now := date_now w + elapsed, requests := requests w @ [body]\<rparr>))"

definition api_error :: "http_response \<Rightarrow> thrown" where
  "api_error response =
     TavilyError (''API request failed: '' @ statusText response) ''API_ERROR''
       (JObj [(''status'', JNum (of_int (status response)))])"

record ToolResult =
  content_text :: json
  isError :: bool

section \<open>The handlers\<close>

text \<open>
  A handler returns what it throws (\<open>Inl\<close>) or its result (\<open>Inr\<close>), and the state it
  leaves. A successful result has no \<open>isError\<close> member: \<open>isError = False\<close>.
\<close>

definition text_result :: "json \<Rightarrow> ToolResult" where
  "text_result t = \<lparr>content_text = t, isError = False\<rparr>"

text \<open>The object \<open>{...data, response_time}\<close>.\<close>

definition search_response_of :: "json \<Rightarrow> rat \<Rightarrow> json" where
  "search_response_of d response_time' =
     JObj (obj_set (spread d) ''response_time'' (JNum response_time'))"

definition handle_search ::
  "platform \<Rightarrow> provider \<Rightarrow> TavilySearchParams \<Rightarrow> world \<Rightarrow> (thrown + ToolResult) \<times> world" where
  "handle_search P fetch args w =
     (case TavilyCache_get (date_now w) (cache_key P args) (cache w) of
        (cached_data, c1) \<Rightarrow>
          if truthy cached_data
          then (Inr (text_result (JStr (JSON_stringify2 P (dflt JNull cached_data)))),
                w\<lparr>cache := c1\<rparr>)
          else
            (let w1 = w\<lparr>cache := c1\<rparr>;
                 start_time = date_now w1
             in case do_fetch fetch (JSON_stringify P (search_request_body args)) w1 of
                  (Rejected message, w2) \<Rightarrow> (Inl (OtherError message), w2)
                | (Resolved response, w2) \<Rightarrow>
                    if \<not> ok response then (Inl (api_error response), w2)
                    else
                      (case json_body response of
                         Inl message \<Rightarrow> (Inl (OtherError message), w2)
                       | Inr d \<Rightarrow>
                           (let response_time' = of_int (date_now w2 - start_time) / 1000;
                                search_response = search_response_of d response_time'
                            in (Inr (text_result (JStr (JSON_stringify2 P search_response))),
                                w2\<lparr>cache := TavilyCache_set (date_now w2) (cache_key P args)
                                                search_response 3600 (cache w2)\<rparr>)))))"

text \<open>\<open>results.map((result) => result.content)\<close>: it stops at the first element that throws.\<close>

fun map_content :: "json list \<Rightarrow> type_error + json option list" where
  "map_content [] = Inr []"
| "map_content (result # rs) =
     (case get_prop (Some result) ''content'' of
        Inl e \<Rightarrow> Inl e
      | Inr c \<Rightarrow> (case map_content rs of Inl e \<Rightarrow> Inl e | Inr cs \<Rightarrow> Inr (c # cs)))"

text \<open>An element of an array under \<open>join\<close>: \<open>undefined\<close> and \<open>null\<close> are empty.\<close>

fun join_element :: "platform \<Rightarrow> json option \<Rightarrow> string" where
  "join_element P None = []"
| "join_element P (Some JNull) = []"
| "join_element P (Some v) = to_string P v"

text \<open>
  \<open>data.results.map((result) => result.content).join('\n\n').slice(0, max_tokens)\<close>
\<close>

definition context_of :: "platform \<Rightarrow> json \<Rightarrow> json \<Rightarrow> type_error + string" where
  "context_of P d max_tokens' =
     (case get_prop (Some d) ''results'' of
        Inl e \<Rightarrow> Inl e
      | Inr None \<Rightarrow> Inl (ReadOfNullish ''map'')
      | Inr (Some JNull) \<Rightarrow> Inl (ReadOfNullish ''map'')
      | Inr (Some (JArr rs)) \<Rightarrow>
          (case map_content rs of
             Inl e \<Rightarrow> Inl e
           | Inr cs \<Rightarrow>
               Inr (slice0 (join (nl @ nl) (map (join_element P) cs))
                      (to_number P max_tokens')))
      | Inr (Some v) \<Rightarrow> Inl (NotAFunction ''map''))"

definition handle_context ::
  "platform \<Rightarrow> provider \<Rightarrow> TavilyContextParams \<Rightarrow> world \<Rightarrow> (thrown + ToolResult) \<times> world" where
  "handle_context P fetch args w =
     (case do_fetch fetch (JSON_stringify P (context_request_body args)) w of
        (Rejected message, w2) \<Rightarrow> (Inl (OtherError message), w2)
      | (Resolved response, w2) \<Rightarrow>
          if \<not> ok response then (Inl (api_error response), w2)
          else
            (case json_body response of
               Inl message \<Rightarrow> (Inl (OtherError message), w2)
             | Inr d \<Rightarrow>
                 (case context_of P d (dflt (JNum 2000) (max_tokens args)) of
                    Inl e \<Rightarrow> (Inl (OtherError (type_error_message P e)), w2)
                  | Inr context \<Rightarrow> (Inr (text_result (JStr context)), w2))))"

definition handle_qna ::
  "platform \<Rightarrow> provider \<Rightarrow> TavilyQnAParams \<Rightarrow> world \<Rightarrow> (thrown + ToolResult) \<times> world" where
  "handle_qna P fetch args w =
     (case do_fetch fetch (JSON_stringify P (qna_request_body args)) w of
        (Rejected message, w2) \<Rightarrow> (Inl (OtherError message), w2)
      | (Resolved response, w2) \<Rightarrow>
          if \<not> ok response then (Inl (api_error response), w2)
          else
            (case json_body response of
               Inl message \<Rightarrow> (Inl (OtherError message), w2)
             | Inr d \<Rightarrow>
                 (case get_prop (Some d) ''answer'' of
                    Inl e \<Rightarrow> (Inl (OtherError (type_error_message P e)), w2)
                  | Inr a \<Rightarrow>
                      (Inr (text_result
                             (if truthy a then dflt JNull a else JStr ''No answer found.'')),
                       w2))))"

section \<open>The dispatcher (the CallToolRequest handler)\<close>

record CallToolRequest =
  params_name :: string
  params_arguments :: "(string \<rightharpoonup> json) option"

text \<open>\<open>rawArgs?.k\<close>, and \<open>rawArgs.k\<close> once \<open>rawArgs\<close> is known to be an object.\<close>

definition raw_prop :: "(string \<rightharpoonup> json) option \<Rightarrow> string \<Rightarrow> json option" where
  "raw_prop rawArgs k = (case rawArgs of None \<Rightarrow> None | Some m \<Rightarrow> m k)"

definition invalid_query :: thrown where
  "invalid_query = McpError InvalidParams ''Query parameter is required and must be a string''"

text \<open>
  The guard \<open>!rawArgs?.query || typeof rawArgs.query !== 'string'\<close>: it throws unless the
  query is a string that is truthy, and then the query is that string.
\<close>

fun checked_query :: "json option \<Rightarrow> thrown + string" where
  "checked_query (Some (JStr s)) =
     (if \<not> truthy (Some (JStr s)) then Inl invalid_query else Inr s)"
| "checked_query q = Inl invalid_query"

definition qna_args :: "(string \<rightharpoonup> json) option \<Rightarrow> string \<Rightarrow> TavilyQnAParams" where
  "qna_args rawArgs q =
     \<lparr>query = q,
      search_depth = raw_prop rawArgs ''search_depth'',
      topic = raw_prop rawArgs ''topic'',
      days = raw_prop rawArgs ''days'',
      time_range = raw_prop rawArgs ''time_range'',
      max_results = raw_prop rawArgs ''max_results'',
      include_domains = raw_prop rawArgs ''include_domains'',
      exclude_domains = raw_prop rawArgs ''exclude_domains''\<rparr>"

definition context_args :: "(string \<rightharpoonup> json) option \<Rightarrow> string \<Rightarrow> TavilyContextParams" where
  "context_args rawArgs q =
     \<lparr>query = q,
      search_depth = raw_prop rawArgs ''search_depth'',
      topic = raw_prop rawArgs ''topic'',
      days = raw_prop rawArgs ''days'',
      time_range = raw_prop rawArgs ''time_range'',
      max_results = raw_prop rawArgs ''max_results'',
      include_domains = raw_prop rawArgs ''include_domains'',
      exclude_domains = raw_prop rawArgs ''exclude_domains'',
      max_tokens = raw_prop rawArgs ''max_tokens''\<rparr>"

definition search_args :: "(string \<rightharpoonup> json) option \<Rightarrow> string \<Rightarrow> TavilySearchParams" where
  "search_args rawArgs q =
     \<lparr>query = q,
      search_depth = raw_prop rawArgs ''search_depth'',
      topic = raw_prop rawArgs ''topic'',
      days = raw_prop rawArgs ''days'',
      time_range = raw_prop rawArgs ''time_range'',
      max_results = raw_prop rawArgs ''max_results'',
      include_domains = raw_prop rawArgs ''include_domains'',
      exclude_domains = raw_prop rawArgs ''exclude_domains'',
      include_images = raw_prop rawArgs ''include_images'',
      include_image_descriptions = raw_prop rawArgs ''include_image_descriptions'',
      include_answer = raw_prop rawArgs ''include_answer'',
      include_raw_content = raw_prop rawArgs ''include_raw_content''\<rparr>"

text \<open>The \<open>switch\<close> inside the \<open>try\<close> block.\<close>

definition switch_tool ::
  "platform \<Rightarrow> provider \<Rightarrow> CallToolRequest \<Rightarrow> world \<Rightarrow> (thrown + ToolResult) \<times> world" where
  "switch_tool P fetch request w =
     (let rawArgs = params_arguments request
      in if params_name request = ''tavily_search'' then
           (case checked_query (raw_prop rawArgs ''query'') of
              Inl e \<Rightarrow> (Inl e, w)
            | Inr q \<Rightarrow> handle_search P fetch (search_args rawArgs q) w)
         else if params_name request = ''tavily_get_search_context'' then
           (case checked_query (raw_prop rawArgs ''query'') of
              Inl e \<Rightarrow> (Inl e, w)
            | Inr q \<Rightarrow> handle_context P fetch (context_args rawArgs q) w)
         else if params_name request = ''tavily_qna_search'' then
           (case checked_query (raw_prop rawArgs ''query'') of
              Inl e \<Rightarrow> (Inl e, w)
            | Inr q \<Rightarrow> handle_qna P fetch (qna_args rawArgs q) w)
         else (Inl (McpError MethodNotFound (''Unimplemented tool: '' @ params_name request)), w))"

text \<open>
  The handler of a tool call. \<open>Inl\<close> is an error thrown out of the handler, which the
  protocol layer answers with a protocol error; \<open>Inr\<close> is the returned tool result. The
  lookup of the tool is outside the \<open>try\<close> block; whatever the \<open>switch\<close> throws is caught
  and returned as a result with \<open>isError = true\<close>.
\<close>

definition call_tool ::
  "platform \<Rightarrow> provider \<Rightarrow> CallToolRequest \<Rightarrow> world \<Rightarrow> (thrown + ToolResult) \<times> world" where
  "call_tool P fetch request w =
     (case find (\<lambda>t. name t = params_name request) TAVILY_TOOLS of
        None \<Rightarrow> (Inl (McpError MethodNotFound (''Unknown tool: '' @ params_name request)), w)
      | Some tool \<Rightarrow>
          (case switch_tool P fetch request w of
             (Inl error, w') \<Rightarrow>
               (Inr \<lparr>content_text = JStr (format_error P error), isError = True\<rparr>, w')
           | (Inr result, w') \<Rightarrow> (Inr result, w')))"

section \<open>The scenarios of the specification\<close>

text \<open>
  A platform for the worked examples: it writes a natural number in decimal. The examples
  do not depend on what it does elsewhere.
\<close>

definition sample_platform :: platform where
  "sample_platform =
     \<lparr>number_to_string = (\<lambda>r. string_of_nat (nat \<lfloor>r\<rfloor>)),
      string_to_number = (\<lambda>s. NaN),
      mcp_error_message = (\<lambda>code message. ''MCP error: '' @ message),
      type_error_message = (\<lambda>e. ''TypeError'')\<rparr>"

text \<open>A text between double quotes, for writing out expected outputs.\<close>

definition in_quotes :: "string \<Rightarrow> string" where
  "in_quotes s = dquote @ s @ dquote"

definition fresh_world :: world where
  "fresh_world = \<lparr>cache = Map.empty, date_now = 0, requests = []\<rparr>"

text \<open>
  The stub provider of the end-to-end search scenario, which answers after 250 ms, the
  request of that scenario, and the same reply as a \<open>TavilySearchResponse\<close>.
\<close>

definition rust_reply :: json where
  "rust_reply = JObj
     [(''query'', JStr ''rust ownership''),
      (''answer'', JStr ''Rust uses ownership to manage memory.''),
      (''results'', JArr
        [JObj [(''title'', JStr ''Ownership - Rust Book''),
               (''url'', JStr ''https://doc.rust-lang.org/book/ch04-00-ownership.html''),
               (''content'', JStr ''...''),
               (''score'', JNum (9 / 10))]])]"

definition rust_backend :: provider where
  "rust_backend body =
     (Resolved \<lparr>ok = True, status = 200, statusText = ''OK'', json_body = Inr rust_reply\<rparr>, 250)"

definition rust_request :: CallToolRequest where
  "rust_request =
     \<lparr>params_name = ''tavily_search'',
      params_arguments = Some [''query'' \<mapsto> JStr ''rust ownership'']\<rparr>"

definition rust_response :: TavilySearchResponse where
  "rust_response =
     \<lparr>TavilySearchResponse.query = ''rust ownership'',
      answer = Some ''Rust uses ownership to manage memory.'',
      response_time = 1 / 4,
      images = None,
      results =
        [\<lparr>title = ''Ownership - Rust Book'',
          url = ''https://doc.rust-lang.org/book/ch04-00-ownership.html'',
          content = ''...'',
          raw_content = None,
          score = 9 / 10,
          published_date = None\<rparr>]\<rparr>"

text \<open>A provider that is asked later and would answer something else.\<close>

definition later_backend :: provider where
  "later_backend body =
     (Resolved \<lparr>ok = True, status = 200, statusText = ''OK'',
                json_body = Inr (JObj [(''query'', JStr ''rust ownership''),
                                       (''answer'', JStr ''A newer answer.''),
                                       (''results'', JArr [])])\<rparr>, 100)"

text \<open>The stub provider of the context scenario: two results.\<close>

definition context_backend :: provider where
  "context_backend body =
     (Resolved \<lparr>ok = True, status = 200, statusText = ''OK'',
                json_body = Inr (JObj [(''query'', JStr ''rust ownership''),
                                       (''results'', JArr
                                          [JObj [(''title'', JStr ''A''),
                                                 (''content'', JStr ''Ownership'')],
                                           JObj [(''title'', JStr ''B''),
                                                 (''content'', JStr ''Borrowing'')]])])\<rparr>, 40)"


section \<open>The cache\<close>

text \<open>
  Claim C7. A read never returns an entry once \<open>now - storedAt\<close> exceeds the entry's
  time-to-live (the code compares milliseconds with \<open>ttl * 1000\<close>). Whatever the map
  holds, a read at time \<open>t\<close> that returns a value found an entry with that value that is
  not older than its time-to-live. After \<open>set(k, v, s)\<close> at time \<open>t0\<close>, a read of \<open>k\<close> at
  time \<open>t\<close> returns \<open>v\<close> and leaves the map alone while \<open>t - t0 \<le> s * 1000\<close>; once
  \<open>t - t0 > s * 1000\<close> it returns nothing, removes the entry for \<open>k\<close> and leaves every other
  key as it was.
\<close>

theorem cache_ttl_roundtrip:
  "(TavilyCache_get t k (c :: 'a cache_map) = (Some v', c') \<longrightarrow>
      (\<exists>e. c k = Some e \<and> data e = v' \<and> of_int (t - timestamp e) \<le> ttl e * 1000))
   \<and> (of_int (t - t0) \<le> s * 1000 \<longrightarrow>
        TavilyCache_get t k (TavilyCache_set t0 k (v :: 'a) s c0)
          = (Some v, TavilyCache_set t0 k v s c0))
   \<and> (of_int (t - t0) > s * 1000 \<longrightarrow>
        fst (TavilyCache_get t k (TavilyCache_set t0 k v s c0)) = None
        \<and> snd (TavilyCache_get t k (TavilyCache_set t0 k v s c0)) k = None
        \<and> (\<forall>k'. k' \<noteq> k \<longrightarrow> snd (TavilyCache_get t k (TavilyCache_set t0 k v s c0)) k' = c0 k'))"
  by (auto simp: TavilyCache_get_def TavilyCache_set_def split: option.splits if_splits)

theorem cache_ttl_roundtrip_witness:
  "TavilyCache_get 3600000 ''k'' (TavilyCache_set 0 ''k'' (7::nat) 3600 Map.empty)
     = (Some 7, TavilyCache_set 0 ''k'' 7 3600 Map.empty)
   \<and> (\<exists>e. TavilyCache_set 0 ''k'' (7::nat) 3600 Map.empty ''k'' = Some e \<and> data e = 7
          \<and> of_int (3600000 - timestamp e) \<le> ttl e * 1000)
   \<and> fst (TavilyCache_get 3600001 ''k'' (TavilyCache_set 0 ''k'' (7::nat) 3600 Map.empty)) = None
   \<and> snd (TavilyCache_get 3600001 ''k'' (TavilyCache_set 0 ''k'' (7::nat) 3600 Map.empty)) ''k'' = None
   \<and> snd (TavilyCache_get 3600001 ''k'' (TavilyCache_set 0 ''k'' (7::nat) 3600 Map.empty)) ''j'' = None"
proof -
  have live: "rat_of_int (3600000 - 0) \<le> 3600 * 1000"
    and dead: "rat_of_int (3600001 - 0) > 3600 * 1000" by simp_all
  note a = cache_ttl_roundtrip [of 3600000 "''k''" "TavilyCache_set 0 ''k'' (7::nat) 3600 Map.empty"
              7 "TavilyCache_set 0 ''k'' (7::nat) 3600 Map.empty" 0 3600 7 Map.empty]
  note b = cache_ttl_roundtrip [of 3600001 "''k''" "Map.empty :: nat cache_map" 0 Map.empty 0 3600 7
              Map.empty]
  from a live have 1: "TavilyCache_get 3600000 ''k'' (TavilyCache_set 0 ''k'' (7::nat) 3600 Map.empty)
     = (Some 7, TavilyCache_set 0 ''k'' 7 3600 Map.empty)" by blast
  with a have 2: "\<exists>e. TavilyCache_set 0 ''k'' (7::nat) 3600 Map.empty ''k'' = Some e \<and> data e = 7
          \<and> of_int (3600000 - timestamp e) \<le> ttl e * 1000" by blast
  from b dead have 3:
    "fst (TavilyCache_get 3600001 ''k'' (TavilyCache_set 0 ''k'' (7::nat) 3600 Map.empty)) = None
   \<and> snd (TavilyCache_get 3600001 ''k'' (TavilyCache_set 0 ''k'' (7::nat) 3600 Map.empty)) ''k'' = None
   \<and> snd (TavilyCache_get 3600001 ''k'' (TavilyCache_set 0 ''k'' (7::nat) 3600 Map.empty)) ''j'' = None"
    by simp
  from 1 2 3 show ?thesis by blast
qed

section \<open>The registry and the dispatcher\<close>

lemma find_tool:
  "find (\<lambda>t. name t = n) TAVILY_TOOLS = None \<longleftrightarrow>
     n \<notin> {''tavily_search'', ''tavily_get_search_context'', ''tavily_qna_search''}"
  by (auto simp: TAVILY_TOOLS_def)

lemma call_tool_invalid:
  assumes "n \<in> {''tavily_search'', ''tavily_get_search_context'', ''tavily_qna_search''}"
      and "checked_query (raw_prop a ''query'') = Inl e"
  shows "call_tool P fetch \<lparr>params_name = n, params_arguments = a\<rparr> w
         = (Inr \<lparr>content_text = JStr (format_error P e), isError = True\<rparr>, w)"
proof -
  from assms(1) obtain tool where "find (\<lambda>t. name t = n) TAVILY_TOOLS = Some tool"
    using find_tool [of n] by (cases "find (\<lambda>t. name t = n) TAVILY_TOOLS") auto
  moreover have "switch_tool P fetch \<lparr>params_name = n, params_arguments = a\<rparr> w = (Inl e, w)"
    using assms by (auto simp: switch_tool_def)
  ultimately show ?thesis by (simp add: call_tool_def)
qed

lemma call_tool_search:
  assumes "checked_query (raw_prop a ''query'') = Inr q"
      and "handle_search P fetch (search_args a q) w = (Inr r, w')"
  shows "call_tool P fetch \<lparr>params_name = ''tavily_search'', params_arguments = a\<rparr> w
           = (Inr r, w')"
proof -
  have "find (\<lambda>t. name t = ''tavily_search'') TAVILY_TOOLS \<noteq> None"
    by (simp add: find_tool)
  moreover have "switch_tool P fetch \<lparr>params_name = ''tavily_search'', params_arguments = a\<rparr> w
                   = (Inr r, w')"
    using assms by (simp add: switch_tool_def)
  ultimately show ?thesis by (auto simp: call_tool_def)
qed

lemma call_tool_search_thrown:
  assumes "checked_query (raw_prop a ''query'') = Inr q"
      and "handle_search P fetch (search_args a q) w = (Inl e, w')"
  shows "call_tool P fetch \<lparr>params_name = ''tavily_search'', params_arguments = a\<rparr> w
          = (Inr \<lparr>content_text = JStr (format_error P e), isError = True\<rparr>, w')"
proof -
  have "find (\<lambda>t. name t = ''tavily_search'') TAVILY_TOOLS \<noteq> None"
    by (simp add: find_tool)
  moreover have "switch_tool P fetch \<lparr>params_name = ''tavily_search'', params_arguments = a\<rparr> w
                   = (Inl e, w')"
    using assms by (simp add: switch_tool_def)
  ultimately show ?thesis by (auto simp: call_tool_def)
qed

lemma call_tool_context:
  assumes "checked_query (raw_prop a ''query'') = Inr q"
      and "handle_context P fetch (context_args a q) w = (Inr r, w')"
  shows "call_tool P fetch \<lparr>params_name = ''tavily_get_search_context'', params_arguments = a\<rparr> w
           = (Inr r, w')"
proof -
  have "find (\<lambda>t. name t = ''tavily_get_search_context'') TAVILY_TOOLS \<noteq> None"
    by (simp add: find_tool)
  moreover have "switch_tool P fetch
                   \<lparr>params_name = ''tavily_get_search_context'', params_arguments = a\<rparr> w
                   = (Inr r, w')"
    using assms by (simp add: switch_tool_def)
  ultimately show ?thesis by (auto simp: call_tool_def)
qed

text \<open>
  Claim C5. The listing has three descriptors, named \<open>tavily_search\<close>,
  \<open>tavily_get_search_context\<close> and \<open>tavily_qna_search\<close> in this order. The parameters their
  schemas enumerate are evaluated here: the search schema has ten, among them \<open>min_score\<close>,
  and none of \<open>topic\<close>, \<open>days\<close>, \<open>time_range\<close>, \<open>include_images\<close>,
  \<open>include_image_descriptions\<close>, \<open>include_raw_content\<close>, which the dispatcher reads from
  the arguments of that tool.
\<close>

theorem registry_listing:
  "map name list_tools = [''tavily_search'', ''tavily_get_search_context'', ''tavily_qna_search'']
   \<and> schema_fields (list_tools ! 0) =
       [''query'', ''search_depth'', ''include_answer'', ''include_domains'', ''exclude_domains'',
        ''response_format'', ''max_results'', ''min_score'', ''cache_ttl'', ''force_refresh'']
   \<and> schema_fields (list_tools ! 1) = [''query'', ''max_tokens'', ''response_format'']
   \<and> schema_fields (list_tools ! 2) = [''query'', ''include_sources'', ''response_format'']
   \<and> set (schema_fields (list_tools ! 0)) \<noteq>
       {''query'', ''search_depth'', ''topic'', ''days'', ''time_range'', ''max_results'',
        ''include_images'', ''include_image_descriptions'', ''include_answer'',
        ''include_raw_content'', ''include_domains'', ''exclude_domains'', ''response_format'',
        ''cache_ttl'', ''force_refresh''}"
proof -
  have f: "schema_fields (list_tools ! 0) =
       [''query'', ''search_depth'', ''include_answer'', ''include_domains'', ''exclude_domains'',
        ''response_format'', ''max_results'', ''min_score'', ''cache_ttl'', ''force_refresh'']"
    by (simp add: list_tools_def TAVILY_TOOLS_def schema_fields_def)
  have "''min_score'' \<in> set (schema_fields (list_tools ! 0))"
    unfolding f by simp
  moreover have "''min_score'' \<notin>
       {''query'', ''search_depth'', ''topic'', ''days'', ''time_range'', ''max_results'',
        ''include_images'', ''include_image_descriptions'', ''include_answer'',
        ''include_raw_content'', ''include_domains'', ''exclude_domains'', ''response_format'',
        ''cache_ttl'', ''force_refresh''}"
    by simp
  ultimately have d: "set (schema_fields (list_tools ! 0)) \<noteq>
       {''query'', ''search_depth'', ''topic'', ''days'', ''time_range'', ''max_results'',
        ''include_images'', ''include_image_descriptions'', ''include_answer'',
        ''include_raw_content'', ''include_domains'', ''exclude_domains'', ''response_format'',
        ''cache_ttl'', ''force_refresh''}"
    by metis
  have n: "map name list_tools
      = [''tavily_search'', ''tavily_get_search_context'', ''tavily_qna_search'']"
    by (simp add: list_tools_def TAVILY_TOOLS_def)
  have g: "schema_fields (list_tools ! 1) = [''query'', ''max_tokens'', ''response_format'']"
    "schema_fields (list_tools ! 2) = [''query'', ''include_sources'', ''response_format'']"
    by (simp_all add: list_tools_def TAVILY_TOOLS_def schema_fields_def)
  from n f g d show ?thesis by blast
qed

text \<open>
  Claim C9. A request whose query is missing or is not a string does not leave the handler
  as a protocol error: the \<open>McpError\<close> with code \<open>InvalidParams\<close> is thrown inside the
  \<open>try\<close> block, so it is caught and returned as a tool result with \<open>isError = true\<close>.
  An unknown tool name is thrown before the \<open>try\<close> block and does leave the handler.
\<close>

theorem malformed_request_is_tool_result:
  "call_tool P fetch \<lparr>params_name = ''tavily_search'', params_arguments = Some Map.empty\<rparr> w
     = (Inr \<lparr>content_text = JStr (''Error: '' @ mcp_error_message P InvalidParams
                      ''Query parameter is required and must be a string''),
              isError = True\<rparr>, w)
   \<and> call_tool P fetch
        \<lparr>params_name = ''tavily_search'', params_arguments = Some [''query'' \<mapsto> JNum 7]\<rparr> w
     = (Inr \<lparr>content_text = JStr (''Error: '' @ mcp_error_message P InvalidParams
                      ''Query parameter is required and must be a string''),
              isError = True\<rparr>, w)
   \<and> call_tool P fetch \<lparr>params_name = ''no_such_tool'', params_arguments = Some Map.empty\<rparr> w
     = (Inl (McpError MethodNotFound ''Unknown tool: no_such_tool''), w)"
  by (simp add: call_tool_def switch_tool_def TAVILY_TOOLS_def raw_prop_def format_error_def
        invalid_query_def)

text \<open>
  Claim C10. For each of the three tools, a call whose query is the empty string is
  answered exactly as the call with the query removed from the arguments: with the error
  built from the \<open>InvalidParams\<close> error of the validation, and in an unchanged state, so
  that no request went to the provider.
\<close>

theorem empty_query_rejected:
  assumes "tool \<in> {''tavily_search'', ''tavily_get_search_context'', ''tavily_qna_search''}"
      and "m ''query'' = Some (JStr [])"
  shows "call_tool P fetch \<lparr>params_name = tool, params_arguments = Some m\<rparr> w
           = (Inr \<lparr>content_text = JStr (''Error: '' @ mcp_error_message P InvalidParams
                      ''Query parameter is required and must be a string''),
                    isError = True\<rparr>, w)
         \<and> call_tool P fetch \<lparr>params_name = tool, params_arguments = Some m\<rparr> w
           = call_tool P fetch
               \<lparr>params_name = tool, params_arguments = Some (m(''query'' := None))\<rparr> w
         \<and> requests (snd (call_tool P fetch \<lparr>params_name = tool, params_arguments = Some m\<rparr> w))
           = requests w"
proof -
  have a: "checked_query (raw_prop (Some m) ''query'') = Inl invalid_query"
    using assms(2) by (simp add: raw_prop_def)
  have b: "checked_query (raw_prop (Some (m(''query'' := None))) ''query'') = Inl invalid_query"
    by (simp add: raw_prop_def)
  show ?thesis
    using call_tool_invalid [OF assms(1) a] call_tool_invalid [OF assms(1) b]
    by (simp add: format_error_def invalid_query_def)
qed

theorem empty_query_rejected_witness:
  "call_tool sample_platform rust_backend
     \<lparr>params_name = ''tavily_qna_search'',
      params_arguments = Some [''query'' \<mapsto> JStr [], ''topic'' \<mapsto> JStr ''news'']\<rparr> fresh_world
     = (Inr \<lparr>content_text =
               JStr (''Error: '' @ ''MCP error: Query parameter is required and must be a string''),
             isError = True\<rparr>, fresh_world)
   \<and> call_tool sample_platform rust_backend
     \<lparr>params_name = ''tavily_qna_search'',
      params_arguments = Some [''query'' \<mapsto> JStr [], ''topic'' \<mapsto> JStr ''news'']\<rparr> fresh_world
     = call_tool sample_platform rust_backend
         \<lparr>params_name = ''tavily_qna_search'',
          params_arguments = Some ([''query'' \<mapsto> JStr [], ''topic'' \<mapsto> JStr ''news'']
                                    (''query'' := None))\<rparr> fresh_world"
proof -
  have t: "''tavily_qna_search''
             \<in> {''tavily_search'', ''tavily_get_search_context'', ''tavily_qna_search''}"
    by simp
  have q: "[''query'' \<mapsto> JStr [], ''topic'' \<mapsto> JStr ''news''] ''query'' = Some (JStr [])"
    by simp
  have m: "mcp_error_message sample_platform InvalidParams
             ''Query parameter is required and must be a string''
           = ''MCP error: Query parameter is required and must be a string''"
    by (simp add: sample_platform_def)
  show ?thesis
    using empty_query_rejected
            [where tool = "''tavily_qna_search''"
               and m = "[''query'' \<mapsto> JStr [], ''topic'' \<mapsto> JStr ''news'']"
               and P = sample_platform and fetch = rust_backend and w = fresh_world, OF t q]
    unfolding m by blast
qed

section \<open>The search handler and its cache\<close>

lemma handle_search_hit:
  assumes "cache w (cache_key P args) = Some e"
      and "of_int (date_now w - timestamp e) \<le> ttl e * 1000"
      and "truthy (Some (data e))"
  shows "handle_search P fetch args w
           = (Inr (text_result (JStr (JSON_stringify2 P (data e)))), w)"
  using assms by (simp add: handle_search_def TavilyCache_get_def)

lemma handle_search_miss:
  assumes "\<not> truthy (fst (TavilyCache_get (date_now w) (cache_key P args) (cache w)))"
      and "fetch (JSON_stringify P (search_request_body args)) = (Resolved r, el)"
      and "ok r" and "json_body r = Inr d"
  shows "handle_search P fetch args w =
           (Inr (text_result (JStr (JSON_stringify2 P (search_response_of d (of_int el / 1000))))),
            w\<lparr>cache := TavilyCache_set (date_now w + el) (cache_key P args)
                         (search_response_of d (of_int el / 1000)) 3600
                         (snd (TavilyCache_get (date_now w) (cache_key P args) (cache w))),
              date_now := date_now w + el,
              requests := requests w @ [JSON_stringify P (search_request_body args)]\<rparr>)"
proof -
  obtain cd c1 where g: "TavilyCache_get (date_now w) (cache_key P args) (cache w) = (cd, c1)"
    by (cases "TavilyCache_get (date_now w) (cache_key P args) (cache w)")
  with assms(1) have "\<not> truthy cd" by simp
  then show ?thesis
    using g assms(2-4) by (simp add: handle_search_def do_fetch_def Let_def)
qed

lemma handle_search_miss_thrown:
  assumes "\<not> truthy (fst (TavilyCache_get (date_now w) (cache_key P args) (cache w)))"
      and "fetch (JSON_stringify P (search_request_body args)) = (out, el)"
      and "\<And>r d. out = Resolved r \<Longrightarrow> ok r \<Longrightarrow> json_body r \<noteq> Inr d"
  shows "\<exists>e. fst (handle_search P fetch args w) = Inl e"
proof -
  obtain cd c1 where g: "TavilyCache_get (date_now w) (cache_key P args) (cache w) = (cd, c1)"
    by (cases "TavilyCache_get (date_now w) (cache_key P args) (cache w)")
  with assms(1) have nt: "\<not> truthy cd" by simp
  show ?thesis
  proof (cases out)
    case (Rejected m)
    then show ?thesis using g nt assms(2)
      by (simp add: handle_search_def do_fetch_def Let_def)
  next
    case (Resolved r)
    show ?thesis
    proof (cases "ok r")
      case False
      then show ?thesis using g nt assms(2) Resolved
        by (simp add: handle_search_def do_fetch_def Let_def)
    next
      case True
      with assms(3) Resolved obtain m where "json_body r = Inl m"
        by (cases "json_body r") auto
      then show ?thesis using g nt assms(2) Resolved True
        by (simp add: handle_search_def do_fetch_def Let_def)
    qed
  qed
qed

lemma cache_key_fields:
  assumes "\<forall>k \<in> {''search_depth'', ''topic'', ''include_answer'', ''include_images'',
                  ''include_raw_content''}. raw_prop a k = raw_prop b k"
  shows "cache_key P (search_args a q) = cache_key P (search_args b q)"
  using assms by (simp add: cache_key_def search_cache_key_object_def search_args_def)

lemma truthy_search_response: "truthy (Some (search_response_of d t))"
  by (simp add: search_response_of_def)

text \<open>A first call that misses the cache and whose provider request succeeds.\<close>

lemma first_call_stores:
  assumes "checked_query (raw_prop a ''query'') = Inr q"
      and "\<not> truthy (fst (TavilyCache_get (date_now w) (cache_key P (search_args a q)) (cache w)))"
      and "fetch (JSON_stringify P (search_request_body (search_args a q))) = (Resolved r, el)"
      and "ok r" and "json_body r = Inr d"
  shows "call_tool P fetch \<lparr>params_name = ''tavily_search'', params_arguments = a\<rparr> w =
           (Inr (text_result (JStr (JSON_stringify2 P (search_response_of d (of_int el / 1000))))),
            w\<lparr>cache := TavilyCache_set (date_now w + el) (cache_key P (search_args a q))
                         (search_response_of d (of_int el / 1000)) 3600
                         (snd (TavilyCache_get (date_now w) (cache_key P (search_args a q))
                                 (cache w))),
              date_now := date_now w + el,
              requests := requests w
                 @ [JSON_stringify P (search_request_body (search_args a q))]\<rparr>)"
  using call_tool_search [OF assms(1)]
        handle_search_miss [where fetch = fetch, OF assms(2) assms(3) assms(4) assms(5)]
  by simp

text \<open>A call that finds a live entry under its key.\<close>

lemma served_from_cache:
  assumes "checked_query (raw_prop b ''query'') = Inr q"
      and "cache w (cache_key P (search_args b q)) = Some e"
      and "of_int (date_now w - timestamp e) \<le> ttl e * 1000"
      and "truthy (Some (data e))"
  shows "call_tool P fetch \<lparr>params_name = ''tavily_search'', params_arguments = b\<rparr> w
           = (Inr (text_result (JStr (JSON_stringify2 P (data e)))), w)"
  using call_tool_search [OF assms(1)]
        handle_search_hit [where fetch = fetch, OF assms(2) assms(3) assms(4)]
  by simp

text \<open>
  Claim C6. Two \<open>tavily_search\<close> calls whose raw arguments agree on \<open>query\<close>,
  \<open>search_depth\<close>, \<open>topic\<close>, \<open>include_answer\<close>, \<open>include_images\<close> and
  \<open>include_raw_content\<close> derive the same cache key, whatever else the arguments hold
  (\<open>max_results\<close>, the domain lists, \<open>response_format\<close>). So when the first call was not
  itself served from the cache and returned without error, a second call that starts at most
  3600 s after the first one returned is answered with the first call's result, whatever
  its provider would say, and leaves the state as it found it: the first call sent one
  request to the provider, the second sends none.
\<close>

theorem same_key_shares_entry:
  assumes fields: "\<forall>k \<in> {''query'', ''search_depth'', ''topic'', ''include_answer'',
                            ''include_images'', ''include_raw_content''}. a k = b k"
      and query: "a ''query'' = Some (JStr q)" "q \<noteq> []"
      and miss: "\<not> truthy (fst (TavilyCache_get (date_now w)
                    (cache_key P (search_args (Some a) q)) (cache w)))"
      and first: "call_tool P fetch1 \<lparr>params_name = ''tavily_search'', params_arguments = Some a\<rparr> w
                    = (Inr res, w1)" "\<not> isError res"
      and live: "gap \<le> 3600000"
  shows "cache_key P (search_args (Some a) q) = cache_key P (search_args (Some b) q)
       \<and> call_tool P fetch2 \<lparr>params_name = ''tavily_search'', params_arguments = Some b\<rparr>
            (w1\<lparr>date_now := date_now w1 + gap\<rparr>)
          = (Inr res, w1\<lparr>date_now := date_now w1 + gap\<rparr>)
       \<and> requests w1
          = requests w @ [JSON_stringify P (search_request_body (search_args (Some a) q))]"
proof -
  let ?A = "search_args (Some a) q" and ?B = "search_args (Some b) q"
  have qa: "checked_query (raw_prop (Some a) ''query'') = Inr q"
    using query by (simp add: raw_prop_def)
  have qb: "checked_query (raw_prop (Some b) ''query'') = Inr q"
    using query fields by (simp add: raw_prop_def)
  have key: "cache_key P ?A = cache_key P ?B"
    using fields by (intro cache_key_fields) (simp add: raw_prop_def)
  obtain out el where f: "fetch1 (JSON_stringify P (search_request_body ?A)) = (out, el)"
    by (cases "fetch1 (JSON_stringify P (search_request_body ?A))")
  have "\<exists>r d. out = Resolved r \<and> ok r \<and> json_body r = Inr d"
  proof (rule ccontr)
    assume "\<not> ?thesis"
    then have "\<exists>e. fst (handle_search P fetch1 ?A w) = Inl e"
      using handle_search_miss_thrown [where fetch = fetch1, OF miss f] by blast
    then obtain e w' where "handle_search P fetch1 ?A w = (Inl e, w')"
      by (cases "handle_search P fetch1 ?A w") auto
    from call_tool_search_thrown [OF qa this] first show False by simp
  qed
  then obtain r d where out: "out = Resolved r" "ok r" "json_body r = Inr d" by blast
  let ?sr = "search_response_of d (of_int el / 1000)"
  from first_call_stores [where fetch = fetch1, OF qa miss f [unfolded out(1)] out(2,3)] first
  have res: "res = text_result (JStr (JSON_stringify2 P ?sr))"
    and w1: "w1 = w\<lparr>cache := TavilyCache_set (date_now w + el) (cache_key P ?A) ?sr 3600
                         (snd (TavilyCache_get (date_now w) (cache_key P ?A) (cache w))),
              date_now := date_now w + el,
              requests := requests w @ [JSON_stringify P (search_request_body ?A)]\<rparr>"
    by simp_all
  let ?w2 = "w1\<lparr>date_now := date_now w1 + gap\<rparr>"
  let ?e = "\<lparr>data = ?sr, timestamp = date_now w + el, ttl = 3600\<rparr>"
  have e: "cache ?w2 (cache_key P ?B) = Some ?e"
    by (simp add: w1 key TavilyCache_set_def)
  have lv: "of_int (date_now ?w2 - timestamp ?e) \<le> ttl ?e * 1000"
    using live by (simp add: w1)
  have "call_tool P fetch2 \<lparr>params_name = ''tavily_search'', params_arguments = Some b\<rparr> ?w2
          = (Inr res, ?w2)"
    using served_from_cache [where fetch = fetch2, OF qb e lv] truthy_search_response
    by (simp add: res)
  with key w1 show ?thesis by simp
qed

section \<open>The search scenario, evaluated\<close>

lemma rust_first_call:
  "call_tool P rust_backend rust_request fresh_world =
     (Inr (text_result (JStr (JSON_stringify2 P (search_response_of rust_reply (1 / 4))))),
      \<lparr>cache = [cache_key P (search_args (params_arguments rust_request) ''rust ownership'')
                  \<mapsto> \<lparr>data = search_response_of rust_reply (1 / 4), timestamp = 250,
                       ttl = 3600\<rparr>],
       date_now = 250,
       requests = [JSON_stringify P (search_request_body
                     (search_args (params_arguments rust_request) ''rust ownership''))]\<rparr>)"
proof -
  let ?a = "params_arguments rust_request"
  have q: "checked_query (raw_prop ?a ''query'') = Inr ''rust ownership''"
    by (simp add: rust_request_def raw_prop_def)
  have miss: "\<not> truthy (fst (TavilyCache_get (date_now fresh_world)
                 (cache_key P (search_args ?a ''rust ownership'')) (cache fresh_world)))"
    by (simp add: TavilyCache_get_def fresh_world_def)
  have f: "rust_backend (JSON_stringify P (search_request_body (search_args ?a ''rust ownership'')))
             = (Resolved \<lparr>ok = True, status = 200, statusText = ''OK'',
                          json_body = Inr rust_reply\<rparr>, 250)"
    by (simp add: rust_backend_def)
  have r: "rust_request = \<lparr>params_name = ''tavily_search'', params_arguments = ?a\<rparr>"
    by (simp add: rust_request_def)
  show ?thesis
    using first_call_stores [where fetch = rust_backend and w = fresh_world, OF q miss f]
    by (subst r) (simp add: fresh_world_def TavilyCache_set_def TavilyCache_get_def)
qed

lemma rust_json_text:
  "JSON_stringify2 P (search_response_of rust_reply (1 / 4)) =
     ''{'' @ nl
     @ ''  '' @ in_quotes ''query'' @ '': '' @ in_quotes ''rust ownership'' @ '','' @ nl
     @ ''  '' @ in_quotes ''answer'' @ '': ''
          @ in_quotes ''Rust uses ownership to manage memory.'' @ '','' @ nl
     @ ''  '' @ in_quotes ''results'' @ '': ['' @ nl
     @ ''    {'' @ nl
     @ ''      '' @ in_quotes ''title'' @ '': '' @ in_quotes ''Ownership - Rust Book'' @ '','' @ nl
     @ ''      '' @ in_quotes ''url'' @ '': ''
          @ in_quotes ''https://doc.rust-lang.org/book/ch04-00-ownership.html'' @ '','' @ nl
     @ ''      '' @ in_quotes ''content'' @ '': '' @ in_quotes ''...'' @ '','' @ nl
     @ ''      '' @ in_quotes ''score'' @ '': '' @ number_to_string P (9 / 10) @ nl
     @ ''    }'' @ nl
     @ ''  ],'' @ nl
     @ ''  '' @ in_quotes ''response_time'' @ '': '' @ number_to_string P (1 / 4) @ nl
     @ ''}''"
  by (simp add: JSON_stringify2_def search_response_of_def rust_reply_def quote_def
        quote_char_def in_quotes_def nl_def dquote_def)

lemma rust_text_format:
  "response_formatters_text rust_response =
     ''Search Results for '' @ in_quotes ''rust ownership'' @ '':'' @ nl @ nl
     @ ''Summary: Rust uses ownership to manage memory.'' @ nl @ nl
     @ ''Detailed Sources:'' @ nl
     @ ''1. Ownership - Rust Book'' @ nl
     @ ''   URL: https://doc.rust-lang.org/book/ch04-00-ownership.html'' @ nl
     @ ''   Content: ...'' @ nl"
  by (simp add: response_formatters_text_def text_source_def rust_response_def
        string_of_nat.simps in_quotes_def nl_def dquote_def)

text \<open>
  The dispatcher copies twelve named members of the raw arguments into the parameters of
  \<open>handle_search\<close> and reads no other. The members \<open>response_format\<close>, \<open>cache_ttl\<close>,
  \<open>force_refresh\<close> and \<open>min_score\<close>, which the schema of the tool declares, are not among
  them: setting, changing or removing one of them changes nothing in what a call does.
\<close>

lemma raw_prop_other:
  "k \<noteq> f \<Longrightarrow> raw_prop (Some (m(k := v))) f = raw_prop (Some m) f"
  by (simp add: raw_prop_def)

lemma search_args_unread:
  assumes "k \<in> {''response_format'', ''cache_ttl'', ''force_refresh'', ''min_score''}"
  shows "search_args (Some (m(k := v))) s = search_args (Some m) s"
proof -
  have "k \<noteq> f" if "f \<in> {''search_depth'', ''topic'', ''days'', ''time_range'', ''max_results'',
      ''include_domains'', ''exclude_domains'', ''include_images'', ''include_image_descriptions'',
      ''include_answer'', ''include_raw_content''}" for f
    using assms that by auto
  then show ?thesis
    unfolding search_args_def by (simp add: raw_prop_other)
qed

lemma unread_arguments:
  assumes "k \<in> {''response_format'', ''cache_ttl'', ''force_refresh'', ''min_score''}"
  shows "call_tool P fetch \<lparr>params_name = ''tavily_search'',
                              params_arguments = Some (m(k := v))\<rparr> w
         = call_tool P fetch \<lparr>params_name = ''tavily_search'', params_arguments = Some m\<rparr> w"
proof -
  have "k \<noteq> ''query''"
    using assms by auto
  then have q: "raw_prop (Some (m(k := v))) ''query'' = raw_prop (Some m) ''query''"
    by (rule raw_prop_other)
  have "switch_tool P fetch \<lparr>params_name = ''tavily_search'',
                               params_arguments = Some (m(k := v))\<rparr> w
        = switch_tool P fetch \<lparr>params_name = ''tavily_search'', params_arguments = Some m\<rparr> w"
    unfolding switch_tool_def Let_def
    by (simp add: q search_args_unread [OF assms] cong: sum.case_cong)
  then show ?thesis
    unfolding call_tool_def by (simp split: option.splits)
qed

text \<open>
  Claim C1. The end-to-end search scenario with no \<open>response_format\<close> in the
  arguments, evaluated: the returned text is the pretty-printed JSON of the search response
  (\<open>handle_search\<close> returns \<open>JSON.stringify(search_response, null, 2)\<close> on every path),
  not the text rendering, which \<open>response_formatters.text\<close> would give and which nothing
  calls.
\<close>

theorem search_reply_is_json:
  "fst (call_tool P rust_backend rust_request fresh_world) =
     Inr \<lparr>content_text = JStr
            (''{'' @ nl
             @ ''  '' @ in_quotes ''query'' @ '': '' @ in_quotes ''rust ownership'' @ '','' @ nl
             @ ''  '' @ in_quotes ''answer'' @ '': ''
                  @ in_quotes ''Rust uses ownership to manage memory.'' @ '','' @ nl
             @ ''  '' @ in_quotes ''results'' @ '': ['' @ nl
             @ ''    {'' @ nl
             @ ''      '' @ in_quotes ''title'' @ '': '' @ in_quotes ''Ownership - Rust Book''
                  @ '','' @ nl
             @ ''      '' @ in_quotes ''url'' @ '': ''
                  @ in_quotes ''https://doc.rust-lang.org/book/ch04-00-ownership.html''
                  @ '','' @ nl
             @ ''      '' @ in_quotes ''content'' @ '': '' @ in_quotes ''...'' @ '','' @ nl
             @ ''      '' @ in_quotes ''score'' @ '': '' @ number_to_string P (9 / 10) @ nl
             @ ''    }'' @ nl
             @ ''  ],'' @ nl
             @ ''  '' @ in_quotes ''response_time'' @ '': '' @ number_to_string P (1 / 4) @ nl
             @ ''}''),
          isError = False\<rparr>
   \<and> response_formatters_text rust_response =
       ''Search Results for '' @ in_quotes ''rust ownership'' @ '':'' @ nl @ nl
       @ ''Summary: Rust uses ownership to manage memory.'' @ nl @ nl
       @ ''Detailed Sources:'' @ nl
       @ ''1. Ownership - Rust Book'' @ nl
       @ ''   URL: https://doc.rust-lang.org/book/ch04-00-ownership.html'' @ nl
       @ ''   Content: ...'' @ nl
   \<and> fst (call_tool P rust_backend rust_request fresh_world)
       \<noteq> Inr \<lparr>content_text = JStr (response_formatters_text rust_response), isError = False\<rparr>"
proof -
  have 1: "fst (call_tool P rust_backend rust_request fresh_world)
             = Inr \<lparr>content_text = JStr (JSON_stringify2 P (search_response_of rust_reply (1 / 4))),
                    isError = False\<rparr>"
    by (simp add: rust_first_call text_result_def)
  have 2: "JSON_stringify2 P (search_response_of rust_reply (1 / 4))
             \<noteq> response_formatters_text rust_response"
    unfolding rust_json_text rust_text_format by simp
  from 1 2 show ?thesis
    unfolding 1 by (simp only: rust_json_text rust_text_format) simp
qed

text \<open>
  Claim C2. The search scenario, then the same call with \<open>force_refresh = true\<close> one
  second later, while a provider stands ready with a newer answer: the call is answered
  with the first call's result and leaves the state as it was, so that the only request
  ever sent to the provider is the one of the first call. Nothing in the dispatcher or in
  \<open>handle_search\<close> reads \<open>force_refresh\<close>.
\<close>

theorem force_refresh_is_ignored:
  "call_tool P later_backend
     \<lparr>params_name = ''tavily_search'',
      params_arguments = Some [''query'' \<mapsto> JStr ''rust ownership'',
                               ''force_refresh'' \<mapsto> JBool True]\<rparr>
     ((snd (call_tool P rust_backend rust_request fresh_world))\<lparr>date_now := 1250\<rparr>)
   = (fst (call_tool P rust_backend rust_request fresh_world),
      (snd (call_tool P rust_backend rust_request fresh_world))\<lparr>date_now := 1250\<rparr>)
   \<and> length (requests (snd (call_tool P rust_backend rust_request fresh_world))) = 1"
proof -
  let ?b = "Some [''query'' \<mapsto> JStr ''rust ownership'', ''force_refresh'' \<mapsto> JBool True]"
  let ?k = "cache_key P (search_args (params_arguments rust_request) ''rust ownership'')"
  let ?e = "\<lparr>data = search_response_of rust_reply (1 / 4), timestamp = 250, ttl = 3600\<rparr>"
  let ?w = "\<lparr>cache = [?k \<mapsto> ?e], date_now = 1250,
             requests = [JSON_stringify P (search_request_body
                     (search_args (params_arguments rust_request) ''rust ownership''))]\<rparr>"
  have q: "checked_query (raw_prop ?b ''query'') = Inr ''rust ownership''"
    by (simp add: raw_prop_def)
  have k: "cache_key P (search_args ?b ''rust ownership'') = ?k"
    by (intro cache_key_fields) (simp add: raw_prop_def rust_request_def)
  have e: "cache ?w (cache_key P (search_args ?b ''rust ownership'')) = Some ?e"
    by (simp add: k)
  have lv: "of_int (date_now ?w - timestamp ?e) \<le> ttl ?e * 1000"
    by simp
  have t: "truthy (Some (data ?e))"
    by (simp add: truthy_search_response)
  from served_from_cache [where fetch = later_backend, OF q e lv t]
  show ?thesis
    by (simp add: rust_first_call)
qed

text \<open>
  Claim C3. The search scenario with \<open>cache_ttl = 60\<close> in the arguments: the entry
  written after the provider call has the time-to-live 3600, the constant of
  \<open>handle_search\<close>, and the same call 61 s later is still answered from the cache.
  Nothing in the dispatcher or in \<open>handle_search\<close> reads \<open>cache_ttl\<close>.
\<close>

theorem cache_ttl_is_ignored:
  "map_option ttl
     (cache (snd (call_tool P rust_backend
                    \<lparr>params_name = ''tavily_search'',
                     params_arguments = Some [''query'' \<mapsto> JStr ''rust ownership'',
                                              ''cache_ttl'' \<mapsto> JNum 60]\<rparr> fresh_world))
        (cache_key P (search_args (Some [''query'' \<mapsto> JStr ''rust ownership'',
                                          ''cache_ttl'' \<mapsto> JNum 60]) ''rust ownership'')))
     = Some 3600
   \<and> fst (call_tool P later_backend
            \<lparr>params_name = ''tavily_search'',
             params_arguments = Some [''query'' \<mapsto> JStr ''rust ownership'',
                                      ''cache_ttl'' \<mapsto> JNum 60]\<rparr>
            ((snd (call_tool P rust_backend
                    \<lparr>params_name = ''tavily_search'',
                     params_arguments = Some [''query'' \<mapsto> JStr ''rust ownership'',
                                              ''cache_ttl'' \<mapsto> JNum 60]\<rparr> fresh_world))
             \<lparr>date_now := 61250\<rparr>))
     = fst (call_tool P rust_backend
              \<lparr>params_name = ''tavily_search'',
               params_arguments = Some [''query'' \<mapsto> JStr ''rust ownership'',
                                        ''cache_ttl'' \<mapsto> JNum 60]\<rparr> fresh_world)"
proof -
  let ?a = "Some [''query'' \<mapsto> JStr ''rust ownership'', ''cache_ttl'' \<mapsto> JNum 60]"
  let ?k = "cache_key P (search_args ?a ''rust ownership'')"
  let ?e = "\<lparr>data = search_response_of rust_reply (1 / 4), timestamp = 250, ttl = 3600\<rparr>"
  let ?w1 = "\<lparr>cache = [?k \<mapsto> ?e], date_now = 250,
              requests = [JSON_stringify P (search_request_body
                            (search_args ?a ''rust ownership''))]\<rparr>"
  have q: "checked_query (raw_prop ?a ''query'') = Inr ''rust ownership''"
    by (simp add: raw_prop_def)
  have miss: "\<not> truthy (fst (TavilyCache_get (date_now fresh_world) ?k (cache fresh_world)))"
    by (simp add: TavilyCache_get_def fresh_world_def)
  have f: "rust_backend (JSON_stringify P (search_request_body (search_args ?a ''rust ownership'')))
             = (Resolved \<lparr>ok = True, status = 200, statusText = ''OK'',
                          json_body = Inr rust_reply\<rparr>, 250)"
    by (simp add: rust_backend_def)
  have first: "call_tool P rust_backend \<lparr>params_name = ''tavily_search'', params_arguments = ?a\<rparr>
                 fresh_world
               = (Inr (text_result (JStr (JSON_stringify2 P
                                            (search_response_of rust_reply (1 / 4))))), ?w1)"
    using first_call_stores [where fetch = rust_backend and w = fresh_world, OF q miss f]
    by (simp add: fresh_world_def TavilyCache_set_def TavilyCache_get_def)
  let ?w2 = "?w1\<lparr>date_now := 61250\<rparr>"
  have e: "cache ?w2 ?k = Some ?e"
    by simp
  have lv: "of_int (date_now ?w2 - timestamp ?e) \<le> ttl ?e * 1000"
    by simp
  have t: "truthy (Some (data ?e))"
    by (simp add: truthy_search_response)
  from served_from_cache [where fetch = later_backend, OF q e lv t]
  show ?thesis
    by (simp add: first)
qed

text \<open>
  Claim C4. The search scenario, whose arguments hold the query alone: the request body
  the handler sends carries \<open>search_depth = basic\<close>, \<open>max_results = 5\<close> and
  \<open>false\<close> for \<open>include_answer\<close>, \<open>include_images\<close> and \<open>include_raw_content\<close>,
  the defaults of the destructuring in \<open>handle_search\<close>. The schema of the tool in the
  registry declares other defaults for two of them, \<open>include_answer = true\<close> and
  \<open>max_results = 10\<close>, none for \<open>include_images\<close> and \<open>include_raw_content\<close>, and the
  schemas of the two other tools declare none for \<open>search_depth\<close>.
\<close>

theorem applied_defaults_and_schema_defaults:
  "requests (snd (call_tool P rust_backend rust_request fresh_world)) =
     [''{'' @ in_quotes ''query'' @ '':'' @ in_quotes ''rust ownership''
      @ '','' @ in_quotes ''search_depth'' @ '':'' @ in_quotes ''basic''
      @ '','' @ in_quotes ''topic'' @ '':'' @ in_quotes ''general''
      @ '','' @ in_quotes ''max_results'' @ '':'' @ number_to_string P 5
      @ '','' @ in_quotes ''include_images'' @ '':false''
      @ '','' @ in_quotes ''include_image_descriptions'' @ '':false''
      @ '','' @ in_quotes ''include_answer'' @ '':false''
      @ '','' @ in_quotes ''include_raw_content'' @ '':false''
      @ '','' @ in_quotes ''include_domains'' @ '':[]''
      @ '','' @ in_quotes ''exclude_domains'' @ '':[]}'']
   \<and> member (search_request_body (search_args (params_arguments rust_request) ''rust ownership''))
        ''include_answer'' = Some (JBool False)
   \<and> schema_default (list_tools ! 0) ''include_answer'' = Some (JBool True)
   \<and> member (search_request_body (search_args (params_arguments rust_request) ''rust ownership''))
        ''max_results'' = Some (JNum 5)
   \<and> schema_default (list_tools ! 0) ''max_results'' = Some (JNum 10)
   \<and> schema_default (list_tools ! 0) ''search_depth'' = Some (JStr ''basic'')
   \<and> schema_default (list_tools ! 0) ''include_images'' = None
   \<and> schema_default (list_tools ! 0) ''include_raw_content'' = None
   \<and> schema_default (list_tools ! 1) ''search_depth'' = None
   \<and> schema_default (list_tools ! 2) ''search_depth'' = None"
proof -
  have body: "JSON_stringify P (search_request_body
                 (search_args (params_arguments rust_request) ''rust ownership'')) =
      ''{'' @ in_quotes ''query'' @ '':'' @ in_quotes ''rust ownership''
      @ '','' @ in_quotes ''search_depth'' @ '':'' @ in_quotes ''basic''
      @ '','' @ in_quotes ''topic'' @ '':'' @ in_quotes ''general''
      @ '','' @ in_quotes ''max_results'' @ '':'' @ number_to_string P 5
      @ '','' @ in_quotes ''include_images'' @ '':false''
      @ '','' @ in_quotes ''include_image_descriptions'' @ '':false''
      @ '','' @ in_quotes ''include_answer'' @ '':false''
      @ '','' @ in_quotes ''include_raw_content'' @ '':false''
      @ '','' @ in_quotes ''include_domains'' @ '':[]''
      @ '','' @ in_quotes ''exclude_domains'' @ '':[]}''"
    by (simp add: JSON_stringify_def search_request_body_def search_args_def rust_request_def
          raw_prop_def default_include_domains_def default_exclude_domains_def quote_def
          quote_char_def in_quotes_def dquote_def)
  have sent: "requests (snd (call_tool P rust_backend rust_request fresh_world)) =
      [JSON_stringify P (search_request_body
                 (search_args (params_arguments rust_request) ''rust ownership''))]"
    by (simp add: rust_first_call)
  have applied:
    "member (search_request_body (search_args (params_arguments rust_request) ''rust ownership''))
        ''include_answer'' = Some (JBool False)"
    "member (search_request_body (search_args (params_arguments rust_request) ''rust ownership''))
        ''max_results'' = Some (JNum 5)"
    by (simp_all add: search_request_body_def search_args_def rust_request_def raw_prop_def)
  have declared:
    "schema_default (list_tools ! 0) ''include_answer'' = Some (JBool True)"
    "schema_default (list_tools ! 0) ''max_results'' = Some (JNum 10)"
    "schema_default (list_tools ! 0) ''search_depth'' = Some (JStr ''basic'')"
    "schema_default (list_tools ! 0) ''include_images'' = None"
    "schema_default (list_tools ! 0) ''include_raw_content'' = None"
    "schema_default (list_tools ! 1) ''search_depth'' = None"
    "schema_default (list_tools ! 2) ''search_depth'' = None"
    by (simp_all add: list_tools_def TAVILY_TOOLS_def schema_default_def)
  show ?thesis
    unfolding sent body using applied declared by simp
qed

theorem same_key_shares_entry_witness:
  "cache_key sample_platform (search_args (Some [''query'' \<mapsto> JStr ''rust ownership''])
       ''rust ownership'')
     = cache_key sample_platform
         (search_args (Some [''query'' \<mapsto> JStr ''rust ownership'', ''max_results'' \<mapsto> JNum 3,
                             ''response_format'' \<mapsto> JStr ''markdown'']) ''rust ownership'')
   \<and> call_tool sample_platform later_backend
       \<lparr>params_name = ''tavily_search'',
        params_arguments = Some [''query'' \<mapsto> JStr ''rust ownership'', ''max_results'' \<mapsto> JNum 3,
                                 ''response_format'' \<mapsto> JStr ''markdown'']\<rparr>
       ((snd (call_tool sample_platform rust_backend rust_request fresh_world))
          \<lparr>date_now := 250 + 1000\<rparr>)
     = (fst (call_tool sample_platform rust_backend rust_request fresh_world),
        (snd (call_tool sample_platform rust_backend rust_request fresh_world))
          \<lparr>date_now := 250 + 1000\<rparr>)
   \<and> length (requests (snd (call_tool sample_platform rust_backend rust_request fresh_world))) = 1"
proof -
  let ?a = "[''query'' \<mapsto> JStr ''rust ownership'']"
  let ?b = "[''query'' \<mapsto> JStr ''rust ownership'', ''max_results'' \<mapsto> JNum 3,
             ''response_format'' \<mapsto> JStr ''markdown'']"
  obtain res w1 where
    first: "call_tool sample_platform rust_backend rust_request fresh_world = (Inr res, w1)"
    and ok: "\<not> isError res" and t: "date_now w1 = 250"
    using rust_first_call [of sample_platform] by (simp add: text_result_def)
  have fields: "\<forall>k \<in> {''query'', ''search_depth'', ''topic'', ''include_answer'',
                         ''include_images'', ''include_raw_content''}. ?a k = ?b k"
    by simp
  have query: "?a ''query'' = Some (JStr ''rust ownership'')" "''rust ownership'' \<noteq> []"
    by simp_all
  have miss: "\<not> truthy (fst (TavilyCache_get (date_now fresh_world)
                 (cache_key sample_platform (search_args (Some ?a) ''rust ownership''))
                 (cache fresh_world)))"
    by (simp add: TavilyCache_get_def fresh_world_def)
  have first': "call_tool sample_platform rust_backend
                  \<lparr>params_name = ''tavily_search'', params_arguments = Some ?a\<rparr> fresh_world
                = (Inr res, w1)"
    using first by (simp add: rust_request_def)
  have live: "(1000::int) \<le> 3600000" by simp
  note th = same_key_shares_entry [where a = ?a and b = ?b and q = "''rust ownership''"
      and w = fresh_world and P = sample_platform and ?fetch1.0 = rust_backend
      and ?fetch2.0 = later_backend and res = res and ?w1.0 = w1 and gap = 1000,
      OF fields query miss first' ok live]
  from th first t show ?thesis
    by (simp add: fresh_world_def)
qed

section \<open>The context handler\<close>

lemma map_content_strings:
  "map (\<lambda>r. member r ''content'') rs = map (\<lambda>c. Some (JStr c)) cs \<Longrightarrow>
   map_content rs = Inr (map (\<lambda>c. Some (JStr c)) cs)"
proof (induction rs arbitrary: cs)
  case Nil
  then show ?case by simp
next
  case (Cons r rs)
  then obtain c cs' where cs: "cs = c # cs'" by (cases cs) auto
  with Cons.prems have m: "member r ''content'' = Some (JStr c)"
    and rest: "map (\<lambda>r. member r ''content'') rs = map (\<lambda>c. Some (JStr c)) cs'" by simp_all
  from m have "get_prop (Some r) ''content'' = Inr (Some (JStr c))"
    by (cases r) simp_all
  with Cons.IH [OF rest] cs show ?case by simp
qed

lemma join_elements_strings:
  "map (join_element P \<circ> (\<lambda>c. Some (JStr c))) cs = cs"
  by (induction cs) simp_all

lemma context_of_strings:
  assumes "member d ''results'' = Some (JArr rs)"
      and "map (\<lambda>r. member r ''content'') rs = map (\<lambda>c. Some (JStr c)) cs"
  shows "context_of P d (JNum n) = Inr (slice0 (join (nl @ nl) cs) (Finite n))"
proof -
  from assms(1) have "get_prop (Some d) ''results'' = Inr (Some (JArr rs))"
    by (cases d) simp_all
  then show ?thesis
    using map_content_strings [OF assms(2)]
    by (simp add: context_of_def join_elements_strings)
qed

text \<open>
  A context call with a valid query, a successful provider reply whose results carry the
  string contents \<open>cs\<close>, and a numeric \<open>max_tokens\<close> \<open>n\<close> (2000 when absent): the text is
  \<open>cs\<close> joined by two newlines and passed through \<open>slice(0, n)\<close>, whatever the sign of \<open>n\<close>.
\<close>

lemma context_call_slice:
  assumes query: "m ''query'' = Some (JStr q)" "q \<noteq> []"
      and reply: "fetch (JSON_stringify P (context_request_body (context_args (Some m) q)))
                    = (Resolved r, el)" "ok r" "json_body r = Inr d"
      and results: "member d ''results'' = Some (JArr rs)"
                   "map (\<lambda>result. member result ''content'') rs = map (\<lambda>c. Some (JStr c)) cs"
      and tokens: "dflt (JNum 2000) (m ''max_tokens'') = JNum n"
  shows "fst (call_tool P fetch \<lparr>params_name = ''tavily_get_search_context'',
                                   params_arguments = Some m\<rparr> w)
           = Inr \<lparr>content_text = JStr (slice0 (join (nl @ nl) cs) (Finite n)),
                  isError = False\<rparr>"
proof -
  have qa: "checked_query (raw_prop (Some m) ''query'') = Inr q"
    using query by (simp add: raw_prop_def)
  have mt: "dflt (JNum 2000) (max_tokens (context_args (Some m) q)) = JNum n"
    using tokens by (simp add: context_args_def raw_prop_def)
  have "handle_context P fetch (context_args (Some m) q) w
          = (Inr (text_result (JStr (slice0 (join (nl @ nl) cs) (Finite n)))),
             w\<lparr>date_now := date_now w + el,
               requests := requests w
                 @ [JSON_stringify P (context_request_body (context_args (Some m) q))]\<rparr>)"
    using reply context_of_strings [OF results, of P n]
    by (simp add: handle_context_def do_fetch_def mt)
  from call_tool_context [OF qa this] show ?thesis
    by (simp add: text_result_def)
qed

text \<open>\<open>slice(0, n)\<close> by the sign of \<open>n\<close>.\<close>

lemma slice0_nonneg:
  "0 \<le> n \<Longrightarrow> slice0 s (Finite n) = take (nat \<lfloor>n\<rfloor>) s"
  by (simp add: slice0_def slice_end_def Let_def min_def)

lemma slice0_neg:
  assumes "n < 0"
  shows "slice0 s (Finite n) = (if \<lceil>n\<rceil> = 0 then [] else take (length s - nat (- \<lceil>n\<rceil>)) s)"
proof -
  have c: "\<lceil>n\<rceil> \<le> 0"
    using assms by simp
  show ?thesis
  proof (cases "\<lceil>n\<rceil> = 0")
    case True
    with assms show ?thesis
      by (simp add: slice0_def slice_end_def Let_def)
  next
    case False
    with c have neg: "\<lceil>n\<rceil> < 0" by linarith
    have "nat (max (int (length s) + \<lceil>n\<rceil>) 0) = length s - nat (- \<lceil>n\<rceil>)"
      using neg by (simp add: max_def nat_diff_distrib' nat_add_distrib) linarith
    with assms neg False show ?thesis
      by (simp add: slice0_def slice_end_def Let_def)
  qed
qed

lemma slice0_nonneg_length:
  assumes "0 \<le> n"
  shows "of_nat (length (slice0 s (Finite n))) \<le> n"
proof -
  have "length (take (nat \<lfloor>n\<rfloor>) s) \<le> nat \<lfloor>n\<rfloor>"
    by simp
  then have "(of_nat (length (take (nat \<lfloor>n\<rfloor>) s)) :: rat) \<le> of_nat (nat \<lfloor>n\<rfloor>)"
    by (simp only: of_nat_le_iff)
  also have "(of_nat (nat \<lfloor>n\<rfloor>) :: rat) = of_int \<lfloor>n\<rfloor>"
    using assms by simp
  also have "\<dots> \<le> n"
    by (rule of_int_floor_le)
  finally show ?thesis
    using assms by (simp add: slice0_nonneg)
qed

text \<open>
  Claim C8, as stated, fails for a negative \<open>max_tokens\<close>, which the dispatcher passes
  on unchecked: \<open>slice(0, -3)\<close> drops the last three code units. In the context scenario
  with \<open>max_tokens = -3\<close> the text has 17 code units, which is not at most \<open>-3\<close>.
\<close>

theorem context_negative_max_tokens:
  "fst (call_tool sample_platform context_backend
          \<lparr>params_name = ''tavily_get_search_context'',
           params_arguments = Some [''query'' \<mapsto> JStr ''rust ownership'',
                                    ''max_tokens'' \<mapsto> JNum (- 3)]\<rparr> fresh_world)
     = Inr \<lparr>content_text = JStr (''Ownership'' @ [CHR 0x0A, CHR 0x0A] @ ''Borrow''),
            isError = False\<rparr>
   \<and> length (''Ownership'' @ [CHR 0x0A, CHR 0x0A] @ ''Borrow'') = 17
   \<and> \<not> rat_of_nat (length (''Ownership'' @ [CHR 0x0A, CHR 0x0A] @ ''Borrow'')) \<le> - 3"
proof -
  let ?m = "[''query'' \<mapsto> JStr ''rust ownership'', ''max_tokens'' \<mapsto> JNum (- 3)]"
  let ?d = "JObj [(''query'', JStr ''rust ownership''),
                  (''results'', JArr [JObj [(''title'', JStr ''A''),
                                            (''content'', JStr ''Ownership'')],
                                      JObj [(''title'', JStr ''B''),
                                            (''content'', JStr ''Borrowing'')]])]"
  let ?rs = "[JObj [(''title'', JStr ''A''), (''content'', JStr ''Ownership'')],
              JObj [(''title'', JStr ''B''), (''content'', JStr ''Borrowing'')]]"
  let ?r = "\<lparr>ok = True, status = 200, statusText = ''OK'', json_body = Inr ?d\<rparr>"
  have query: "?m ''query'' = Some (JStr ''rust ownership'')" "''rust ownership'' \<noteq> []"
    by simp_all
  have reply: "context_backend (JSON_stringify sample_platform
                 (context_request_body (context_args (Some ?m) ''rust ownership'')))
               = (Resolved ?r, 40)" "ok ?r" "json_body ?r = Inr ?d"
    by (simp_all add: context_backend_def)
  have results: "member ?d ''results'' = Some (JArr ?rs)"
    "map (\<lambda>result. member result ''content'') ?rs
       = map (\<lambda>c. Some (JStr c)) [''Ownership'', ''Borrowing'']"
    by simp_all
  have tokens: "dflt (JNum 2000) (?m ''max_tokens'') = JNum (- 3)"
    by simp
  note call = context_call_slice [where m = ?m and q = "''rust ownership''"
      and fetch = context_backend and P = sample_platform and r = ?r and el = 40 and d = ?d
      and rs = ?rs and cs = "[''Ownership'', ''Borrowing'']" and n = "- 3" and w = fresh_world,
      OF query reply results tokens]
  have "slice0 (join (nl @ nl) [''Ownership'', ''Borrowing'']) (Finite (- 3))
          = ''Ownership'' @ [CHR 0x0A, CHR 0x0A] @ ''Borrow''"
    by (simp add: slice0_def slice_end_def nl_def)
  with call show ?thesis by simp
qed

text \<open>
  Claim C8, amended. A \<open>tavily_get_search_context\<close> call with a valid query, whose
  provider request succeeds with a body whose \<open>results\<close> is an array of objects with string
  \<open>content\<close> members \<open>cs\<close>, and whose \<open>max_tokens\<close> is a number \<open>n\<close> (2000 when the
  arguments have none), returns \<open>cs\<close> joined by two newlines and passed through
  \<open>slice(0, n)\<close>: characters are counted, not tokens. For \<open>n \<ge> 0\<close> that is the first
  \<open>\<lfloor>n\<rfloor>\<close> code units, so at most \<open>n\<close> of them, and exactly 10 when \<open>n = 10\<close> and the
  joined contents are longer than 10. For \<open>n < 0\<close> it is the joined contents without
  their last \<open>- \<lceil>n\<rceil>\<close> code units, and empty when \<open>- 1 < n\<close>.
\<close>

theorem context_is_sliced_concatenation:
  assumes query: "m ''query'' = Some (JStr q)" "q \<noteq> []"
      and reply: "fetch (JSON_stringify P (context_request_body (context_args (Some m) q)))
                    = (Resolved r, el)" "ok r" "json_body r = Inr d"
      and results: "member d ''results'' = Some (JArr rs)"
                   "map (\<lambda>result. member result ''content'') rs = map (\<lambda>c. Some (JStr c)) cs"
      and tokens: "dflt (JNum 2000) (m ''max_tokens'') = JNum n"
  shows "fst (call_tool P fetch \<lparr>params_name = ''tavily_get_search_context'',
                                   params_arguments = Some m\<rparr> w)
           = Inr \<lparr>content_text = JStr (slice0 (join (nl @ nl) cs) (Finite n)),
                  isError = False\<rparr>
         \<and> (0 \<le> n \<longrightarrow>
               slice0 (join (nl @ nl) cs) (Finite n) = take (nat \<lfloor>n\<rfloor>) (join (nl @ nl) cs)
               \<and> of_nat (length (slice0 (join (nl @ nl) cs) (Finite n))) \<le> n)
         \<and> (n = 10 \<and> length (join (nl @ nl) cs) > 10 \<longrightarrow>
               length (slice0 (join (nl @ nl) cs) (Finite n)) = 10)
         \<and> (n < 0 \<longrightarrow>
               slice0 (join (nl @ nl) cs) (Finite n)
                 = (if \<lceil>n\<rceil> = 0 then []
                    else take (length (join (nl @ nl) cs) - nat (- \<lceil>n\<rceil>)) (join (nl @ nl) cs)))"
proof -
  note 1 = context_call_slice [where fetch = fetch and w = w, OF query reply results tokens]
  have 2: "0 \<le> n \<longrightarrow>
               slice0 (join (nl @ nl) cs) (Finite n) = take (nat \<lfloor>n\<rfloor>) (join (nl @ nl) cs)
               \<and> of_nat (length (slice0 (join (nl @ nl) cs) (Finite n))) \<le> n"
    using slice0_nonneg slice0_nonneg_length by blast
  have 3: "n = 10 \<and> length (join (nl @ nl) cs) > 10 \<longrightarrow>
               length (slice0 (join (nl @ nl) cs) (Finite n)) = 10"
    by (auto simp: slice0_nonneg)
  have 4: "n < 0 \<longrightarrow>
               slice0 (join (nl @ nl) cs) (Finite n)
                 = (if \<lceil>n\<rceil> = 0 then []
                    else take (length (join (nl @ nl) cs) - nat (- \<lceil>n\<rceil>)) (join (nl @ nl) cs))"
    using slice0_neg by blast
  from 1 2 3 4 show ?thesis by blast
qed

theorem context_is_sliced_concatenation_witness:
  "fst (call_tool sample_platform context_backend
          \<lparr>params_name = ''tavily_get_search_context'',
           params_arguments = Some [''query'' \<mapsto> JStr ''rust ownership'',
                                    ''max_tokens'' \<mapsto> JNum 10]\<rparr> fresh_world)
     = Inr \<lparr>content_text = JStr (''Ownership'' @ [CHR 0x0A]), isError = False\<rparr>
   \<and> length (''Ownership'' @ [CHR 0x0A]) = 10
   \<and> fst (call_tool sample_platform context_backend
          \<lparr>params_name = ''tavily_get_search_context'',
           params_arguments = Some [''query'' \<mapsto> JStr ''rust ownership'',
                                    ''max_tokens'' \<mapsto> JNum (- 12)]\<rparr> fresh_world)
     = Inr \<lparr>content_text = JStr ''Ownershi'', isError = False\<rparr>"
proof -
  let ?m = "[''query'' \<mapsto> JStr ''rust ownership'', ''max_tokens'' \<mapsto> JNum 10]"
  let ?m' = "[''query'' \<mapsto> JStr ''rust ownership'', ''max_tokens'' \<mapsto> JNum (- 12)]"
  let ?d = "JObj [(''query'', JStr ''rust ownership''),
                  (''results'', JArr [JObj [(''title'', JStr ''A''),
                                            (''content'', JStr ''Ownership'')],
                                      JObj [(''title'', JStr ''B''),
                                            (''content'', JStr ''Borrowing'')]])]"
  let ?rs = "[JObj [(''title'', JStr ''A''), (''content'', JStr ''Ownership'')],
              JObj [(''title'', JStr ''B''), (''content'', JStr ''Borrowing'')]]"
  let ?r = "\<lparr>ok = True, status = 200, statusText = ''OK'', json_body = Inr ?d\<rparr>"
  let ?J = "join (nl @ nl) [''Ownership'', ''Borrowing'']"
  have query: "?m ''query'' = Some (JStr ''rust ownership'')" "''rust ownership'' \<noteq> []"
    and query': "?m' ''query'' = Some (JStr ''rust ownership'')"
    by simp_all
  have reply: "context_backend (JSON_stringify sample_platform
                 (context_request_body (context_args (Some ?m) ''rust ownership'')))
               = (Resolved ?r, 40)" "ok ?r" "json_body ?r = Inr ?d"
    and reply': "context_backend (JSON_stringify sample_platform
                 (context_request_body (context_args (Some ?m') ''rust ownership'')))
               = (Resolved ?r, 40)"
    by (simp_all add: context_backend_def)
  have results: "member ?d ''results'' = Some (JArr ?rs)"
    "map (\<lambda>result. member result ''content'') ?rs
       = map (\<lambda>c. Some (JStr c)) [''Ownership'', ''Borrowing'']"
    by simp_all
  have tokens: "dflt (JNum 2000) (?m ''max_tokens'') = JNum 10"
    and tokens': "dflt (JNum 2000) (?m' ''max_tokens'') = JNum (- 12)"
    by simp_all
  note pos = context_is_sliced_concatenation [where m = ?m and q = "''rust ownership''"
      and fetch = context_backend and P = sample_platform and r = ?r and el = 40 and d = ?d
      and rs = ?rs and cs = "[''Ownership'', ''Borrowing'']" and n = 10 and w = fresh_world,
      OF query reply results tokens]
  note neg = context_is_sliced_concatenation [where m = ?m' and q = "''rust ownership''"
      and fetch = context_backend and P = sample_platform and r = ?r and el = 40 and d = ?d
      and rs = ?rs and cs = "[''Ownership'', ''Borrowing'']" and n = "- 12" and w = fresh_world,
      OF query'  query(2) reply' reply(2,3) results tokens']
  have p: "(0::rat) \<le> 10" and n: "(- 12 :: rat) < 0" by simp_all
  from pos p have "slice0 ?J (Finite 10) = take (nat \<lfloor>10::rat\<rfloor>) ?J" by blast
  then have a: "slice0 ?J (Finite 10) = ''Ownership'' @ [CHR 0x0A]"
    by (simp add: nl_def)
  from neg n have "slice0 ?J (Finite (- 12))
      = (if \<lceil>- 12 :: rat\<rceil> = 0 then [] else take (length ?J - nat (- \<lceil>- 12 :: rat\<rceil>)) ?J)"
    by blast
  then have b: "slice0 ?J (Finite (- 12)) = ''Ownershi''"
    by (simp add: nl_def)
  from pos neg a b show ?thesis by simp
qed

end
